theory Spec2Isabelle
  imports Main
begin

section \<open>LAVA dispatcher: fastboot drivers and the boot actions\<close>

text \<open>
  A shallow embedding of \<^verbatim>\<open>lava_dispatcher/device/fastboot_drivers.py\<close> and of the
  \<^verbatim>\<open>try/except\<close> of \<^verbatim>\<open>cmd_boot_linaro_android_image.run\<close> in
  \<^verbatim>\<open>lava_dispatcher/actions/boot_control.py\<close>.

  The drivers do nothing but call the host: shell commands, downloads, the ramdisk
  tools, logging. Each such call is recorded as an \<open>event\<close> in a trace, and what the
  host answers (an exit status, a path, an exception) is read from a \<open>host\<close> record of
  functions that may depend on everything that happened before. A method of the
  source is a function from the state (the driver's attributes and the trace) to a
  result, \<open>Inl\<close> an exception and \<open>Inr\<close> a return value, and the state it leaves
  behind: an exception does not undo the assignments and calls made before it.
\<close>

subsection \<open>Python values\<close>

text \<open>\<^verbatim>\<open>'%s' % x\<close> and \<^verbatim>\<open>str(x)\<close> for a value that is a string or \<^verbatim>\<open>None\<close>.\<close>

definition py_str :: "string option \<Rightarrow> string" where
  "py_str x = (case x of None \<Rightarrow> ''None'' | Some s \<Rightarrow> s)"

text \<open>The truth value of a string or \<^verbatim>\<open>None\<close>: only a non-empty string is true.\<close>

definition truthy :: "string option \<Rightarrow> bool" where
  "truthy x = (case x of None \<Rightarrow> False | Some s \<Rightarrow> s \<noteq> [])"

text \<open>\<^verbatim>\<open>str(n)\<close> for an integer: its decimal digits, with a sign when negative.\<close>

definition digit_char :: "nat \<Rightarrow> char" where
  "digit_char n = ''0123456789'' ! n"

function str_nat :: "nat \<Rightarrow> string" where
  "str_nat n = (if n < 10 then [digit_char n] else str_nat (n div 10) @ [digit_char (n mod 10)])"
  by pat_completeness auto
termination
  by (relation "measure (\<lambda>n. n)") auto

declare str_nat.simps [simp del]

definition str_int :: "int \<Rightarrow> string" where
  "str_int i = (if i < 0 then CHR ''-'' # str_nat (nat (- i)) else str_nat (nat i))"

text \<open>\<^verbatim>\<open>s.strip()\<close> of a byte string: the ASCII white space of both ends is removed.\<close>

definition is_space :: "char \<Rightarrow> bool" where
  "is_space c = (c \<in> set [CHR '' '', CHR 0x09, CHR 0x0A, CHR 0x0B, CHR 0x0C, CHR 0x0D])"

definition strip :: "string \<Rightarrow> string" where
  "strip s = rev (dropWhile is_space (rev (dropWhile is_space s)))"

subsection \<open>Exceptions, events and the host\<close>

text \<open>
  The exception classes the two files raise or catch. \<open>OtherException\<close> is any other
  subclass of \<^verbatim>\<open>Exception\<close>, by class name and message. \<open>KeyboardInterrupt\<close> and
  \<open>SystemExit\<close> derive from \<^verbatim>\<open>BaseException\<close> only.
\<close>

datatype error =
    CriticalError string
  | ADBConnectError string
  | CalledProcessError int string
  | NotImplementedError string
  | KeyError string
  | OtherException string string
  | KeyboardInterrupt
  | SystemExit

fun is_Exception :: "error \<Rightarrow> bool" where
  "is_Exception KeyboardInterrupt = False"
| "is_Exception SystemExit = False"
| "is_Exception _ = True"

type_synonym proc = nat

datatype event =
    RunCommand string bool
  | Spawn string int
  | CheckCall "string list"
  | Sleep nat
  | DownloadImage string "string option" bool
  | ExtractRamdisk string "string option" bool
  | ExtractModules string string
  | CreateRamdisk string "string option"
  | Mkdtemp string
  | ConnectToSerial
  | LogDebug string
  | LogInfo string
  | LogCritical string
  | LogException string error

record host =
  exit_status :: "event list \<Rightarrow> string \<Rightarrow> int"
  failok_default :: bool
  check_call_status :: "event list \<Rightarrow> string list \<Rightarrow> int"
  spawn_result :: "event list \<Rightarrow> string \<Rightarrow> error + proc"
  download_image_result :: "event list \<Rightarrow> string \<Rightarrow> string option \<Rightarrow> bool \<Rightarrow> error + string"
  extract_ramdisk_result :: "event list \<Rightarrow> string \<Rightarrow> string option \<Rightarrow> bool \<Rightarrow> error + string"
  extract_modules_result :: "event list \<Rightarrow> string \<Rightarrow> string \<Rightarrow> error + unit"
  create_ramdisk_result :: "event list \<Rightarrow> string \<Rightarrow> string option \<Rightarrow> error + string"
  mkdtemp_result :: "event list \<Rightarrow> string \<Rightarrow> error + string"
  connect_to_serial_result :: "event list \<Rightarrow> error + proc"

subsection \<open>Configuration and driver state\<close>

record config =
  fastboot_command :: string
  adb_command :: string
  soft_boot_cmd :: string
  hard_reset_command :: "string option"
  fastboot_kernel_load_addr :: "string option"
  rootfs_partition :: "string option"
  shared_working_directory :: "string option"
  connection_command :: "string option"
  data_part_android_org :: string
  sys_part_android_org :: string

text \<open>The driver classes: \<open>BaseDriver\<close> and its six subclasses.\<close>

datatype board = BaseDriver | fastboot | nexus10 | fastboot_serial | capri | pxa1928dkb | k3v2

text \<open>
  The attributes \<^verbatim>\<open>BaseDriver.__init__\<close> sets. \<open>p_kernel\<close>, \<open>p_ramdisk\<close>,
  \<open>p_working_dir\<close> and \<open>p_default_boot_cmds\<close> are \<^verbatim>\<open>_kernel\<close>, \<^verbatim>\<open>_ramdisk\<close>,
  \<^verbatim>\<open>_working_dir\<close> and \<^verbatim>\<open>_default_boot_cmds\<close>; \<open>boot_image\<close> is
  \<^verbatim>\<open>__boot_image__\<close>, which Python does not mangle (it ends in two underscores), so
  the subclasses read the attribute the base class writes.
\<close>

record driver =
  cls :: board
  target_type :: "string option"
  scratch_dir :: "string option"
  p_default_boot_cmds :: string
  p_kernel :: "string option"
  p_ramdisk :: "string option"
  p_working_dir :: "string option"
  boot_image :: "string option"

definition init :: "board \<Rightarrow> driver" where
  "init b = \<lparr>cls = b, target_type = None, scratch_dir = None,
     p_default_boot_cmds = ''boot_cmds_ramdisk'', p_kernel = None, p_ramdisk = None,
     p_working_dir = None, boot_image = None\<rparr>"

record state =
  drv :: driver
  trace :: "event list"

type_synonym 'a action = "state \<Rightarrow> (error + 'a) \<times> state"

definition ret :: "'a \<Rightarrow> 'a action" where
  "ret x s = (Inr x, s)"

definition raise :: "error \<Rightarrow> 'a action" where
  "raise e s = (Inl e, s)"

text \<open>Sequencing: the second statement runs only if the first did not raise.\<close>

definition bnd :: "'a action \<Rightarrow> ('a \<Rightarrow> 'b action) \<Rightarrow> 'b action" where
  "bnd m f s = (case m s of (Inl e, s') \<Rightarrow> (Inl e, s') | (Inr x, s') \<Rightarrow> f x s')"

definition emit :: "event \<Rightarrow> unit action" where
  "emit ev s = (Inr (), s\<lparr>trace := trace s @ [ev]\<rparr>)"

definition assign :: "(driver \<Rightarrow> driver) \<Rightarrow> unit action" where
  "assign f s = (Inr (), s\<lparr>drv := f (drv s)\<rparr>)"

subsection \<open>The collaborators outside the two files\<close>

text \<open>
  Modelled from the spec: \<^verbatim>\<open>context.run_command(cmd, failok)\<close>, the Command Runner, is
  not in the source files. It executes a shell command with optional failure
  tolerance and returns the exit status: with \<open>failok\<close> a non-zero exit is returned,
  without it a non-zero exit raises the external-command failure. The exit status is
  the host's.
\<close>

definition run_command :: "host \<Rightarrow> string \<Rightarrow> bool \<Rightarrow> int action" where
  "run_command h cmd failok s =
     (let rc = exit_status h (trace s) cmd;
          s' = s\<lparr>trace := trace s @ [RunCommand cmd failok]\<rparr>
      in if failok \<or> rc = 0 then (Inr rc, s') else (Inl (CalledProcessError rc cmd), s'))"

text \<open>
  Modelled from the spec: \<^verbatim>\<open>subprocess.check_call\<close>, \<^verbatim>\<open>context.spawn\<close>,
  \<^verbatim>\<open>download_image\<close>, \<^verbatim>\<open>extract_ramdisk\<close>, \<^verbatim>\<open>extract_modules\<close>,
  \<^verbatim>\<open>create_ramdisk\<close>, \<^verbatim>\<open>mkdtemp\<close> and \<^verbatim>\<open>connect_to_serial\<close> are external
  services: the call is recorded and its result, a value or an exception, is the host's.
\<close>

definition check_call :: "host \<Rightarrow> string list \<Rightarrow> unit action" where
  "check_call h argv s =
     (let rc = check_call_status h (trace s) argv;
          s' = s\<lparr>trace := trace s @ [CheckCall argv]\<rparr>
      in if rc = 0 then (Inr (), s') else (Inl (CalledProcessError rc (concat argv)), s'))"

definition spawn :: "host \<Rightarrow> string \<Rightarrow> int \<Rightarrow> proc action" where
  "spawn h cmd timeout s = (spawn_result h (trace s) cmd, s\<lparr>trace := trace s @ [Spawn cmd timeout]\<rparr>)"

definition download_image :: "host \<Rightarrow> string \<Rightarrow> string option \<Rightarrow> bool \<Rightarrow> string action" where
  "download_image h url dir decompress s =
     (download_image_result h (trace s) url dir decompress,
      s\<lparr>trace := trace s @ [DownloadImage url dir decompress]\<rparr>)"

definition extract_ramdisk :: "host \<Rightarrow> string \<Rightarrow> string option \<Rightarrow> bool \<Rightarrow> string action" where
  "extract_ramdisk h rd dir is_uboot s =
     (extract_ramdisk_result h (trace s) rd dir is_uboot,
      s\<lparr>trace := trace s @ [ExtractRamdisk rd dir is_uboot]\<rparr>)"

definition extract_modules :: "host \<Rightarrow> string \<Rightarrow> string \<Rightarrow> unit action" where
  "extract_modules h modules dir s =
     (extract_modules_result h (trace s) modules dir,
      s\<lparr>trace := trace s @ [ExtractModules modules dir]\<rparr>)"

definition create_ramdisk :: "host \<Rightarrow> string \<Rightarrow> string option \<Rightarrow> string action" where
  "create_ramdisk h dir tmp s =
     (create_ramdisk_result h (trace s) dir tmp,
      s\<lparr>trace := trace s @ [CreateRamdisk dir tmp]\<rparr>)"

definition mkdtemp :: "host \<Rightarrow> string \<Rightarrow> string action" where
  "mkdtemp h base s = (mkdtemp_result h (trace s) base, s\<lparr>trace := trace s @ [Mkdtemp base]\<rparr>)"

definition connect_to_serial :: "host \<Rightarrow> proc action" where
  "connect_to_serial h s = (connect_to_serial_result h (trace s), s\<lparr>trace := trace s @ [ConnectToSerial]\<rparr>)"

definition sleep :: "nat \<Rightarrow> unit action" where
  "sleep n = emit (Sleep n)"

subsection \<open>The command wrapper and the flasher client\<close>

text \<open>\<^verbatim>\<open>_call\<close>: the command runs under \<^verbatim>\<open>timeout -s SIGKILL\<close>.\<close>

definition call :: "host \<Rightarrow> string \<Rightarrow> bool \<Rightarrow> int \<Rightarrow> unit action" where
  "call h cmd ignore_failure timeout =
     bnd (run_command h (''timeout -s SIGKILL '' @ str_int timeout @ ''s '' @ cmd) ignore_failure)
       (\<lambda>_. ret ())"

text \<open>\<^verbatim>\<open>FastBoot.__call__\<close>; the defaults of the source are \<open>False\<close> and \<open>600\<close>.\<close>

definition FastBoot_call :: "host \<Rightarrow> config \<Rightarrow> string \<Rightarrow> bool \<Rightarrow> int \<Rightarrow> unit action" where
  "FastBoot_call h cfg args ignore_failure timeout =
     call h (''flock /var/lock/lava-fastboot.lck '' @ (fastboot_command cfg @ '' '' @ args))
       ignore_failure timeout"

text \<open>\<^verbatim>\<open>BaseDriver.adb\<close> without \<^verbatim>\<open>spawn\<close>, and with it.\<close>

definition adb :: "host \<Rightarrow> config \<Rightarrow> string \<Rightarrow> bool \<Rightarrow> int \<Rightarrow> unit action" where
  "adb h cfg args ignore_failure timeout =
     call h (adb_command cfg @ '' '' @ args) ignore_failure timeout"

definition adb_spawn :: "host \<Rightarrow> config \<Rightarrow> string \<Rightarrow> proc action" where
  "adb_spawn h cfg args = spawn h (adb_command cfg @ '' '' @ args) 60"

text \<open>
  \<^verbatim>\<open>FastBoot.enter\<close>: a soft reset through the bridge; when it raises
  \<^verbatim>\<open>CalledProcessError\<close>, the hard reset command if one is configured, a critical log
  line otherwise. Any other exception of the soft reset propagates. The hard reset
  is \<^verbatim>\<open>run_command\<close> with its default \<open>failok\<close>, which is the host's
  \<open>failok_default\<close>.
\<close>

definition FastBoot_enter :: "host \<Rightarrow> config \<Rightarrow> unit action" where
  "FastBoot_enter h cfg s =
     (case adb h cfg (soft_boot_cmd cfg) False 600 s of
        (Inr u, s') \<Rightarrow> (Inr (), s')
      | (Inl (CalledProcessError rc c), s') \<Rightarrow>
          (case hard_reset_command cfg of
             Some hard \<Rightarrow>
               if hard \<noteq> []
               then bnd (emit (LogDebug ''Will hard reset the device''))
                      (\<lambda>_. bnd (run_command h hard (failok_default h))
                      (\<lambda>_. ret ())) s'
               else emit (LogCritical
                      ''Hard reset command not configured. Please reset the device manually.'') s'
           | None \<Rightarrow>
               emit (LogCritical
                 ''Hard reset command not configured. Please reset the device manually.'') s')
      | (Inl e, s') \<Rightarrow> (Inl e, s'))"

text \<open>\<^verbatim>\<open>FastBoot.on\<close>: the liveness probe, \<open>False\<close> when the probe command fails.\<close>

definition FastBoot_on :: "host \<Rightarrow> config \<Rightarrow> bool action" where
  "FastBoot_on h cfg s =
     (case bnd (emit (LogInfo ''Waiting for 10 seconds for connection to settle''))
             (\<lambda>_. bnd (sleep 10)
             (\<lambda>_. bnd (FastBoot_call h cfg ''getvar all'' False 2)
             (\<lambda>_. ret True))) s of
        (Inl (CalledProcessError rc c), s') \<Rightarrow> (Inr False, s')
      | r \<Rightarrow> r)"

definition FastBoot_erase :: "host \<Rightarrow> config \<Rightarrow> string \<Rightarrow> unit action" where
  "FastBoot_erase h cfg part = FastBoot_call h cfg (''erase '' @ part) False 600"

definition FastBoot_flash :: "host \<Rightarrow> config \<Rightarrow> string option \<Rightarrow> string option \<Rightarrow> unit action" where
  "FastBoot_flash h cfg part img =
     FastBoot_call h cfg (''flash '' @ py_str part @ '' '' @ py_str img) False 600"

definition FastBoot_boot :: "host \<Rightarrow> config \<Rightarrow> string option \<Rightarrow> unit action" where
  "FastBoot_boot h cfg img =
     bnd (FastBoot_call h cfg ''reboot'' False 600)
       (\<lambda>_. bnd (sleep 10)
       (\<lambda>_. FastBoot_call h cfg (''boot '' @ py_str img) False 600))"

subsection \<open>The base driver\<close>

text \<open>
  The property \<^verbatim>\<open>working_dir\<close>: the scratch directory when no shared working
  directory is configured (it is \<^verbatim>\<open>None\<close> or blank), else a temporary directory
  under the shared one, made on first use and kept in \<^verbatim>\<open>_working_dir\<close>.
\<close>

definition working_dir :: "host \<Rightarrow> config \<Rightarrow> string option action" where
  "working_dir h cfg s =
     (case shared_working_directory cfg of
        None \<Rightarrow> ret (scratch_dir (drv s)) s
      | Some shared \<Rightarrow>
          if strip shared = [] then ret (scratch_dir (drv s)) s
          else (case p_working_dir (drv s) of
                  None \<Rightarrow>
                    bnd (mkdtemp h shared)
                      (\<lambda>p. bnd (assign (\<lambda>d. d\<lparr>p_working_dir := Some p\<rparr>))
                      (\<lambda>_. ret (Some p))) s
                | Some p \<Rightarrow> ret (Some p) s))"

text \<open>\<^verbatim>\<open>_get_image\<close>\<close>

definition get_image :: "host \<Rightarrow> config \<Rightarrow> string \<Rightarrow> string action" where
  "get_image h cfg url = bnd (working_dir h cfg) (\<lambda>sdir. download_image h url sdir True)"

text \<open>
  \<^verbatim>\<open>_get_partition_mount_point\<close>: a dictionary of two keys, the later entry winning
  when both partitions have one name; a missing key raises \<^verbatim>\<open>KeyError\<close>.
\<close>

definition get_partition_mount_point :: "config \<Rightarrow> string \<Rightarrow> string action" where
  "get_partition_mount_point cfg part =
     (let lookup = [data_part_android_org cfg \<mapsto> ''/data'', sys_part_android_org cfg \<mapsto> ''/system'']
      in case lookup part of None \<Rightarrow> raise (KeyError part) | Some m \<Rightarrow> ret m)"

text \<open>\<^verbatim>\<open>erase_boot\<close>: \<^verbatim>\<open>capri\<close> and \<^verbatim>\<open>pxa1928dkb\<close> override it with \<^verbatim>\<open>pass\<close>.\<close>

definition erase_boot :: "host \<Rightarrow> config \<Rightarrow> unit action" where
  "erase_boot h cfg s =
     (if cls (drv s) = capri \<or> cls (drv s) = pxa1928dkb then ret () s
      else FastBoot_erase h cfg ''boot'' s)"

text \<open>\<^verbatim>\<open>BaseDriver.boot\<close>; \<open>boot_cmds\<close> is \<^verbatim>\<open>None\<close> by default.\<close>

definition BaseDriver_boot :: "host \<Rightarrow> config \<Rightarrow> string option \<Rightarrow> unit action" where
  "BaseDriver_boot h cfg boot_cmds s =
     (if boot_image (drv s) = None
      then raise (CriticalError ''Deploy action must be run first'') s
      else if p_kernel (drv s) \<noteq> None then
        (if p_ramdisk (drv s) \<noteq> None then
           (if truthy (fastboot_kernel_load_addr cfg)
            then FastBoot_call h cfg
                   (''boot -c '' @ [CHR 0x22] @ py_str boot_cmds @ [CHR 0x22] @ '' -b ''
                      @ py_str (fastboot_kernel_load_addr cfg) @ '' '' @ py_str (p_kernel (drv s))
                      @ '' '' @ py_str (p_ramdisk (drv s))) False 600 s
            else raise (CriticalError ''Kernel load address not defined!'') s)
         else
           (if truthy (fastboot_kernel_load_addr cfg)
            then FastBoot_call h cfg
                   (''boot -c '' @ [CHR 0x22] @ py_str boot_cmds @ [CHR 0x22] @ '' -b ''
                      @ py_str (fastboot_kernel_load_addr cfg) @ '' '' @ py_str (p_kernel (drv s)))
                   False 600 s
            else raise (CriticalError ''Kernel load address not defined!'') s))
      else FastBoot_boot h cfg (boot_image (drv s)) s)"

text \<open>
  The \<^verbatim>\<open>boot\<close> of \<^verbatim>\<open>nexus10\<close>, \<^verbatim>\<open>capri\<close> and \<^verbatim>\<open>k3v2\<close> (the same two lines in each
  class), and of \<^verbatim>\<open>pxa1928dkb\<close>, which then waits for the bridge on Android.
\<close>

definition nexus10_boot :: "host \<Rightarrow> config \<Rightarrow> string option \<Rightarrow> unit action" where
  "nexus10_boot h cfg boot_cmds s =
     bnd (FastBoot_flash h cfg (Some ''boot'') (boot_image (drv s)))
       (\<lambda>_. FastBoot_call h cfg ''reboot'' False 600) s"

definition capri_boot :: "host \<Rightarrow> config \<Rightarrow> string option \<Rightarrow> unit action" where
  "capri_boot h cfg boot_cmds s =
     bnd (FastBoot_flash h cfg (Some ''boot'') (boot_image (drv s)))
       (\<lambda>_. FastBoot_call h cfg ''reboot'' False 600) s"

definition k3v2_boot :: "host \<Rightarrow> config \<Rightarrow> string option \<Rightarrow> unit action" where
  "k3v2_boot h cfg boot_cmds s =
     bnd (FastBoot_flash h cfg (Some ''boot'') (boot_image (drv s)))
       (\<lambda>_. FastBoot_call h cfg ''reboot'' False 600) s"

definition pxa1928dkb_boot :: "host \<Rightarrow> config \<Rightarrow> string option \<Rightarrow> unit action" where
  "pxa1928dkb_boot h cfg boot_cmds s =
     bnd (FastBoot_flash h cfg (Some ''boot'') (boot_image (drv s)))
       (\<lambda>_. bnd (FastBoot_call h cfg ''reboot'' False 600)
       (\<lambda>_ s'. if target_type (drv s') = Some ''android''
                then adb h cfg ''wait-for-device'' False 600 s' else ret () s')) s"

text \<open>\<^verbatim>\<open>driver.boot(boot_cmds)\<close>, by the class of the driver.\<close>

definition boot :: "host \<Rightarrow> config \<Rightarrow> string option \<Rightarrow> unit action" where
  "boot h cfg boot_cmds s =
     (case cls (drv s) of
        BaseDriver \<Rightarrow> BaseDriver_boot h cfg boot_cmds s
      | fastboot \<Rightarrow> BaseDriver_boot h cfg boot_cmds s
      | nexus10 \<Rightarrow> nexus10_boot h cfg boot_cmds s
      | fastboot_serial \<Rightarrow> BaseDriver_boot h cfg boot_cmds s
      | capri \<Rightarrow> capri_boot h cfg boot_cmds s
      | pxa1928dkb \<Rightarrow> pxa1928dkb_boot h cfg boot_cmds s
      | k3v2 \<Rightarrow> k3v2_boot h cfg boot_cmds s)"

text \<open>\<^verbatim>\<open>in_fastboot\<close>\<close>

definition in_fastboot :: "host \<Rightarrow> config \<Rightarrow> bool action" where
  "in_fastboot h cfg =
     bnd (FastBoot_on h cfg)
       (\<lambda>b. if b then bnd (emit (LogDebug ''Device is in fastboot mode - no need to hard reset''))
                        (\<lambda>_. ret True)
             else ret False)"

text \<open>The fifteen arguments of \<^verbatim>\<open>deploy_linaro_kernel\<close>, each a string or \<^verbatim>\<open>None\<close>.\<close>

record kernel_args =
  a_kernel :: "string option"
  a_ramdisk :: "string option"
  a_dtb :: "string option"
  a_modules :: "string option"
  a_rootfs :: "string option"
  a_nfsrootfs :: "string option"
  a_bootloader :: "string option"
  a_firmware :: "string option"
  a_bl1 :: "string option"
  a_bl2 :: "string option"
  a_bl31 :: "string option"
  a_rootfstype :: "string option"
  a_bootloadertype :: "string option"
  a_target_type :: "string option"
  a_scratch_dir :: "string option"

text \<open>
  \<^verbatim>\<open>BaseDriver.deploy_linaro_kernel\<close>. The modules are downloaded to the attribute
  \<^verbatim>\<open>_working_dir\<close> and the ramdisk is repacked there, while the ramdisk is unpacked
  in the property \<^verbatim>\<open>working_dir\<close>, as the source has it. \<^verbatim>\<open>extract_ramdisk\<close> is
  given \<^verbatim>\<open>self._ramdisk\<close>, which the line before has set to the downloaded image.
\<close>

definition BaseDriver_deploy_linaro_kernel :: "host \<Rightarrow> config \<Rightarrow> kernel_args \<Rightarrow> unit action" where
  "BaseDriver_deploy_linaro_kernel h cfg a =
     bnd (assign (\<lambda>d. d\<lparr>target_type := a_target_type a\<rparr>))
     (\<lambda>_. bnd (assign (\<lambda>d. d\<lparr>scratch_dir := a_scratch_dir a\<rparr>))
     (\<lambda>_. bnd (case a_kernel a of
                 Some k \<Rightarrow> bnd (get_image h cfg k) (\<lambda>img. assign (\<lambda>d. d\<lparr>p_kernel := Some img\<rparr>))
               | None \<Rightarrow> raise (CriticalError ''A kernel image is required!''))
     (\<lambda>_. bnd (case a_ramdisk a of
                 None \<Rightarrow> ret ()
               | Some r \<Rightarrow>
                   bnd (get_image h cfg r)
                   (\<lambda>img. bnd (assign (\<lambda>d. d\<lparr>p_ramdisk := Some img\<rparr>))
                   (\<lambda>_. case a_modules a of
                          None \<Rightarrow> ret ()
                        | Some m \<Rightarrow>
                            bnd (\<lambda>s. download_image h m (p_working_dir (drv s)) False s)
                            (\<lambda>modules. bnd (working_dir h cfg)
                            (\<lambda>wd. bnd (extract_ramdisk h img wd False)
                            (\<lambda>ramdisk_dir. bnd (extract_modules h modules ramdisk_dir)
                            (\<lambda>_. bnd (\<lambda>s. create_ramdisk h ramdisk_dir (p_working_dir (drv s)) s)
                            (\<lambda>rd. assign (\<lambda>d. d\<lparr>p_ramdisk := Some rd\<rparr>)))))))))
     (\<lambda>_. bnd (case a_rootfs a of
                 None \<Rightarrow> ret ()
               | Some r \<Rightarrow>
                   bnd (assign (\<lambda>d. d\<lparr>p_default_boot_cmds := ''boot_cmds_rootfs''\<rparr>))
                   (\<lambda>_. bnd (get_image h cfg r)
                   (\<lambda>img. FastBoot_flash h cfg (rootfs_partition cfg) (Some img))))
     (\<lambda>_. assign (\<lambda>d. d\<lparr>boot_image := Some ''kernel''\<rparr>))))))"

text \<open>
  \<^verbatim>\<open>driver.deploy_linaro_kernel(...)\<close>: \<^verbatim>\<open>fastboot\<close>, \<^verbatim>\<open>nexus10\<close>, \<^verbatim>\<open>capri\<close>,
  \<^verbatim>\<open>pxa1928dkb\<close> and \<^verbatim>\<open>k3v2\<close> override it with a single \<^verbatim>\<open>raise\<close>.
\<close>

definition deploy_linaro_kernel :: "host \<Rightarrow> config \<Rightarrow> kernel_args \<Rightarrow> unit action" where
  "deploy_linaro_kernel h cfg a s =
     (case cls (drv s) of
        BaseDriver \<Rightarrow> BaseDriver_deploy_linaro_kernel h cfg a s
      | fastboot_serial \<Rightarrow> BaseDriver_deploy_linaro_kernel h cfg a s
      | fastboot \<Rightarrow> raise (CriticalError ''This platform does not support kernel deployment!'') s
      | nexus10 \<Rightarrow> raise (CriticalError ''This platform does not support kernel deployment!'') s
      | capri \<Rightarrow> raise (CriticalError ''This platform does not support kernel deployment!'') s
      | pxa1928dkb \<Rightarrow> raise (CriticalError ''This platform does not support kernel deployment!'') s
      | k3v2 \<Rightarrow> raise (CriticalError ''This platform does not support kernel deployment!'') s)"

text \<open>
  \<^verbatim>\<open>deploy_android(boot, system, userdata, rootfstype, bootloadertype, target_type,
  scratch_dir)\<close>; no class overrides it, and \<^verbatim>\<open>self.erase_boot()\<close> is the class's own.
\<close>

definition deploy_android ::
  "host \<Rightarrow> config \<Rightarrow> string option \<Rightarrow> string option \<Rightarrow> string option \<Rightarrow> string option \<Rightarrow>
   string option \<Rightarrow> string option \<Rightarrow> string option \<Rightarrow> unit action" where
  "deploy_android h cfg boot_url system userdata rootfstype bootloadertype tt sd =
     bnd (assign (\<lambda>d. d\<lparr>target_type := tt\<rparr>))
     (\<lambda>_. bnd (assign (\<lambda>d. d\<lparr>scratch_dir := sd\<rparr>))
     (\<lambda>_. bnd (erase_boot h cfg)
     (\<lambda>_. bnd (case boot_url of
                 Some b \<Rightarrow> get_image h cfg b
               | None \<Rightarrow> raise (CriticalError ''A boot image is required!''))
     (\<lambda>boot_img. bnd (case system of
                 None \<Rightarrow> ret ()
               | Some sy \<Rightarrow> bnd (get_image h cfg sy)
                             (\<lambda>img. FastBoot_flash h cfg (Some ''system'') (Some img)))
     (\<lambda>_. bnd (case userdata of
                 None \<Rightarrow> ret ()
               | Some u \<Rightarrow> bnd (get_image h cfg u)
                            (\<lambda>img. FastBoot_flash h cfg (Some ''userdata'') (Some img)))
     (\<lambda>_. assign (\<lambda>d. d\<lparr>boot_image := Some boot_img\<rparr>)))))))"

text \<open>
  \<^verbatim>\<open>adb_file_system\<close> is a generator under \<^verbatim>\<open>@contextmanager\<close>.
  \<open>adb_file_system_enter\<close> is its code up to the \<^verbatim>\<open>yield\<close>, returning the locals
  \<open>host_dir\<close> and \<open>target_dir\<close>; \<open>adb_file_system_exit\<close> is its code after the
  \<^verbatim>\<open>yield\<close>. \<open>adb_file_system\<close> is \<^verbatim>\<open>with driver.adb_file_system(p, d) as host_dir: body\<close>:
  when the body raises, the exception is thrown into the generator at the \<^verbatim>\<open>yield\<close>,
  which stands in no \<^verbatim>\<open>try\<close>, so the generator ends there and the exception goes on
  to the caller of the \<^verbatim>\<open>with\<close> statement.
\<close>

definition adb_file_system_enter :: "host \<Rightarrow> config \<Rightarrow> string \<Rightarrow> string \<Rightarrow> (string \<times> string) action" where
  "adb_file_system_enter h cfg part directory =
     bnd (get_partition_mount_point cfg part)
     (\<lambda>mount_point. bnd (working_dir h cfg)
     (\<lambda>wd. let host_dir = py_str wd @ ''/mnt/'' @ directory;
                target_dir = mount_point @ ''/'' @ directory
            in bnd (check_call h [''mkdir'', ''-p'', host_dir])
               (\<lambda>_. bnd (adb h cfg (''pull '' @ target_dir @ '' '' @ host_dir) True 600)
               (\<lambda>_. ret (host_dir, target_dir)))))"

definition adb_file_system_exit :: "host \<Rightarrow> config \<Rightarrow> string \<Rightarrow> string \<Rightarrow> unit action" where
  "adb_file_system_exit h cfg host_dir target_dir =
     adb h cfg (''push '' @ host_dir @ '' '' @ target_dir) False 600"

definition adb_file_system ::
  "host \<Rightarrow> config \<Rightarrow> string \<Rightarrow> string \<Rightarrow> (string \<Rightarrow> 'a action) \<Rightarrow> 'a action" where
  "adb_file_system h cfg part directory body =
     bnd (adb_file_system_enter h cfg part directory)
     (\<lambda>(host_dir, target_dir) s.
        case body host_dir s of
          (Inl e, s') \<Rightarrow> (Inl e, s')
        | (Inr r, s') \<Rightarrow> bnd (adb_file_system_exit h cfg host_dir target_dir) (\<lambda>_. ret r) s')"

subsection \<open>Entering fastboot and connecting, by class\<close>

definition enter_fastboot :: "host \<Rightarrow> config \<Rightarrow> unit action" where
  "enter_fastboot h cfg s =
     (case cls (drv s) of
        BaseDriver \<Rightarrow> raise (NotImplementedError ''enter_fastboot'') s
      | fastboot \<Rightarrow> FastBoot_enter h cfg s
      | nexus10 \<Rightarrow> FastBoot_enter h cfg s
      | fastboot_serial \<Rightarrow> FastBoot_enter h cfg s
      | capri \<Rightarrow> FastBoot_enter h cfg s
      | pxa1928dkb \<Rightarrow> FastBoot_enter h cfg s
      | k3v2 \<Rightarrow> bnd (FastBoot_enter h cfg) (\<lambda>_. sleep 10) s)"

definition fastboot_connect :: "host \<Rightarrow> config \<Rightarrow> proc action" where
  "fastboot_connect h cfg s =
     (if target_type (drv s) = Some ''android''
      then bnd (adb h cfg ''wait-for-device'' False 600) (\<lambda>_. adb_spawn h cfg ''shell'') s
      else raise (CriticalError ''This device only supports Android!'') s)"

definition fastboot_serial_connect :: "host \<Rightarrow> config \<Rightarrow> proc action" where
  "fastboot_serial_connect h cfg =
     bnd (if truthy (connection_command cfg) then connect_to_serial h
          else raise (CriticalError ''The connection_command is not defined!''))
     (\<lambda>proc. bnd (\<lambda>s. if target_type (drv s) = Some ''android''
                        then adb h cfg ''wait-for-device'' False 600 s else ret () s)
     (\<lambda>_. ret proc))"

definition pxa1928dkb_connect :: "host \<Rightarrow> config \<Rightarrow> proc action" where
  "pxa1928dkb_connect h cfg =
     bnd (if truthy (connection_command cfg) then connect_to_serial h
          else raise (CriticalError ''The connection_command is not defined!''))
     (\<lambda>proc. ret proc)"

definition connect :: "host \<Rightarrow> config \<Rightarrow> proc action" where
  "connect h cfg s =
     (case cls (drv s) of
        BaseDriver \<Rightarrow> raise (NotImplementedError ''connect'') s
      | fastboot \<Rightarrow> fastboot_connect h cfg s
      | nexus10 \<Rightarrow> fastboot_connect h cfg s
      | fastboot_serial \<Rightarrow> fastboot_serial_connect h cfg s
      | capri \<Rightarrow> fastboot_serial_connect h cfg s
      | pxa1928dkb \<Rightarrow> pxa1928dkb_connect h cfg s
      | k3v2 \<Rightarrow> fastboot_serial_connect h cfg s)"

subsection \<open>The android boot action\<close>

text \<open>
  The client's configuration and target device as far as
  \<^verbatim>\<open>cmd_boot_linaro_android_image.run\<close> writes them, and the log.
\<close>

record client =
  boot_cmds :: "string list option"
  android_wait_for_home_screen_activity :: "string option"
  test_image_prompts :: "string list"
  boot_options :: "string list"
  android_wait_for_home_screen :: bool
  android_boot_uiautomator_jar :: "string option"
  android_boot_uiautomator_commands :: "string list option"
  log :: "event list"

text \<open>
  The assignments of \<^verbatim>\<open>cmd_boot_linaro_android_image.run\<close> before its \<^verbatim>\<open>try\<close>
  statement.
\<close>

definition configure_client ::
  "string list \<Rightarrow> string list option \<Rightarrow> bool \<Rightarrow> string option \<Rightarrow> string option \<Rightarrow>
   string option \<Rightarrow> string list option \<Rightarrow> client \<Rightarrow> client" where
  "configure_client options cmds wait_for_home_screen wait_for_home_screen_activity
     test_image_prompt boot_uiautomator_jar boot_uiautomator_commands c =
     (let c1 = (case cmds of None \<Rightarrow> c | Some b \<Rightarrow> c\<lparr>boot_cmds := Some b\<rparr>);
          c2 = (case wait_for_home_screen_activity of
                  None \<Rightarrow> c1
                | Some a \<Rightarrow> c1\<lparr>android_wait_for_home_screen_activity := Some a\<rparr>);
          c3 = (case test_image_prompt of
                  None \<Rightarrow> c2
                | Some p \<Rightarrow> c2\<lparr>test_image_prompts := test_image_prompts c2 @ [p]\<rparr>);
          c4 = c3\<lparr>boot_options := options\<rparr>;
          c5 = c4\<lparr>android_wait_for_home_screen := wait_for_home_screen\<rparr>;
          c6 = c5\<lparr>android_boot_uiautomator_jar := boot_uiautomator_jar\<rparr>
      in c6\<lparr>android_boot_uiautomator_commands := boot_uiautomator_commands\<rparr>)"

text \<open>
  \<^verbatim>\<open>cmd_boot_linaro_android_image.run\<close>. The client's method
  \<^verbatim>\<open>boot_linaro_android_image\<close> is not in the source files and is the parameter
  \<open>boot_linaro_android_image\<close>: given the client and \<open>adb_check\<close> it returns or raises,
  and leaves a client. \<^verbatim>\<open>except ADBConnectError\<close> logs and raises the exception it
  caught; \<^verbatim>\<open>except Exception\<close> logs and raises a new \<^verbatim>\<open>CriticalError\<close>; what is not
  an \<^verbatim>\<open>Exception\<close> passes both clauses.
\<close>

definition cmd_boot_linaro_android_image_run ::
  "(client \<Rightarrow> bool \<Rightarrow> (error + unit) \<times> client) \<Rightarrow> string list \<Rightarrow> string list option \<Rightarrow> bool \<Rightarrow>
   bool \<Rightarrow> string option \<Rightarrow> string option \<Rightarrow> string option \<Rightarrow> string list option \<Rightarrow>
   client \<Rightarrow> (error + unit) \<times> client" where
  "cmd_boot_linaro_android_image_run boot_linaro_android_image options cmds adb_check
     wait_for_home_screen wait_for_home_screen_activity test_image_prompt
     boot_uiautomator_jar boot_uiautomator_commands c =
     (case boot_linaro_android_image
             (configure_client options cmds wait_for_home_screen wait_for_home_screen_activity
                test_image_prompt boot_uiautomator_jar boot_uiautomator_commands c) adb_check of
        (Inr u, c') \<Rightarrow> (Inr (), c')
      | (Inl (ADBConnectError m), c') \<Rightarrow>
          (Inl (ADBConnectError m),
           c'\<lparr>log := log c' @
              [LogException ''boot_linaro_android_image failed to create the adb connection: %s''
                 (ADBConnectError m)]\<rparr>)
      | (Inl e, c') \<Rightarrow>
          if is_Exception e
          then (Inl (CriticalError ''Failed to boot test image.''),
                c'\<lparr>log := log c' @ [LogException ''boot_linaro_android_image failed: %s'' e]\<rparr>)
          else (Inl e, c'))"

subsection \<open>Command lines, and hosts and configurations to run the model on\<close>

text \<open>The command line of a flashing-tool call and of a bridge call, as the two wrappers build it.\<close>

abbreviation flasher_line :: "config \<Rightarrow> int \<Rightarrow> string \<Rightarrow> string" where
  "flasher_line cfg t args \<equiv>
     ''timeout -s SIGKILL '' @ str_int t @ ''s flock /var/lock/lava-fastboot.lck '' @ fastboot_command cfg @ '' '' @ args"

abbreviation bridge_line :: "config \<Rightarrow> int \<Rightarrow> string \<Rightarrow> string" where
  "bridge_line cfg t args \<equiv> ''timeout -s SIGKILL '' @ str_int t @ ''s '' @ adb_command cfg @ '' '' @ args"

text \<open>
  A host where every command exits with 0 and every service returns a path made from
  its argument, a host where every command exits with 1, a configuration, and a
  driver that was just constructed.
\<close>

definition host_ok :: host where
  "host_ok = \<lparr>exit_status = (\<lambda>_ _. 0), failok_default = True, check_call_status = (\<lambda>_ _. 0),
     spawn_result = (\<lambda>_ _. Inr 1),
     download_image_result = (\<lambda>_ url _ _. Inr url),
     extract_ramdisk_result = (\<lambda>_ rd _ _. Inr (rd @ ''.dir'')),
     extract_modules_result = (\<lambda>_ _ _. Inr ()),
     create_ramdisk_result = (\<lambda>_ d _. Inr (d @ ''/ramdisk.cpio'')),
     mkdtemp_result = (\<lambda>_ b. Inr (b @ ''/tmp0'')),
     connect_to_serial_result = (\<lambda>_. Inr 2)\<rparr>"

definition host_failing :: host where
  "host_failing = host_ok\<lparr>exit_status := (\<lambda>_ _. 1)\<rparr>"


definition cfg0 :: config where
  "cfg0 = \<lparr>fastboot_command = ''fastboot'', adb_command = ''adb'',
     soft_boot_cmd = ''reboot bootloader'', hard_reset_command = Some ''pdu-cycle'',
     fastboot_kernel_load_addr = Some ''0x80008000'', rootfs_partition = Some ''userdata'',
     shared_working_directory = None, connection_command = Some ''telnet board 7001'',
     data_part_android_org = ''userdata'', sys_part_android_org = ''system''\<rparr>"

definition fresh :: "board \<Rightarrow> state" where
  "fresh b = \<lparr>drv = init b, trace = []\<rparr>"

text \<open>Arguments of a kernel deployment with a kernel, a ramdisk and modules.\<close>

definition kargs0 :: kernel_args where
  "kargs0 = \<lparr>a_kernel = Some ''zImage'', a_ramdisk = Some ''initrd.gz'', a_dtb = None,
     a_modules = Some ''modules.tar'', a_rootfs = None, a_nfsrootfs = None, a_bootloader = None,
     a_firmware = None, a_bl1 = None, a_bl2 = None, a_bl31 = None, a_rootfstype = Some ''ext4'',
     a_bootloadertype = Some ''u_boot'', a_target_type = Some ''android'',
     a_scratch_dir = Some ''/scratch''\<rparr>"

text \<open>A driver after a successful \<open>deploy_android\<close>, with an empty trace.\<close>

definition ready :: "board \<Rightarrow> state" where
  "ready b = \<lparr>drv = (init b)\<lparr>target_type := Some ''android'', scratch_dir := Some ''/scratch'',
       boot_image := Some ''boot.img''\<rparr>, trace = []\<rparr>"

text \<open>
  Two bodies for the scope of \<open>adb_file_system\<close>: one writes a file into the staging
  directory and returns, one raises.
\<close>

definition body_writes :: "string \<Rightarrow> unit action" where
  "body_writes host_dir = emit (CheckCall [''touch'', host_dir @ ''/f''])"

definition body_raises :: "string \<Rightarrow> unit action" where
  "body_raises host_dir = raise (OtherException ''IOError'' ''disk full'')"

text \<open>A client, and two clients' boot methods: one that cannot reach the bridge, one that times out.\<close>

definition client0 :: client where
  "client0 = \<lparr>boot_cmds = None, android_wait_for_home_screen_activity = None,
     test_image_prompts = [''root@linaro:''], boot_options = [], android_wait_for_home_screen = True,
     android_boot_uiautomator_jar = None, android_boot_uiautomator_commands = None, log = []\<rparr>"

definition boot_no_bridge :: "client \<Rightarrow> bool \<Rightarrow> (error + unit) \<times> client" where
  "boot_no_bridge c adb_check = (Inl (ADBConnectError ''Failed to create adb connection''), c)"

definition boot_timeout :: "client \<Rightarrow> bool \<Rightarrow> (error + unit) \<times> client" where
  "boot_timeout c adb_check = (Inl (OtherException ''TimeoutError'' ''no prompt''), c)"

subsection \<open>Reading a trace, and the states a driver can be in\<close>

text \<open>The shell commands of a trace, and its calls of the ramdisk tools, in order.\<close>

fun commands :: "event list \<Rightarrow> string list" where
  "commands [] = []"
| "commands (RunCommand c f # es) = c # commands es"
| "commands (e # es) = commands es"

fun ramdisk_steps :: "event list \<Rightarrow> event list" where
  "ramdisk_steps [] = []"
| "ramdisk_steps (ExtractRamdisk r d u # es) = ExtractRamdisk r d u # ramdisk_steps es"
| "ramdisk_steps (ExtractModules m d # es) = ExtractModules m d # ramdisk_steps es"
| "ramdisk_steps (CreateRamdisk d t # es) = CreateRamdisk d t # ramdisk_steps es"
| "ramdisk_steps (e # es) = ramdisk_steps es"

text \<open>
  \<open>frame f m\<close>: the action \<open>m\<close> leaves \<open>f\<close> of the driver as it was, whether it returns
  or raises.
\<close>

definition frame :: "(driver \<Rightarrow> 'x) \<Rightarrow> 'a action \<Rightarrow> bool" where
  "frame f m = (\<forall>s. f (drv (snd (m s))) = f (drv s))"

text \<open>
  The driver states that arise from a constructor by calls of the driver's methods,
  with any arguments, on any host, whether the call returns or raises. The two
  halves of \<open>adb_file_system\<close> are steps of their own, since the caller's body runs
  between them.
\<close>

inductive reachable :: "driver \<Rightarrow> bool" where
  r_init: "reachable (init b)"
| r_deploy_linaro_kernel: "reachable (drv s) \<Longrightarrow> reachable (drv (snd (deploy_linaro_kernel h cfg a s)))"
| r_deploy_android:
    "reachable (drv s) \<Longrightarrow>
     reachable (drv (snd (deploy_android h cfg b sy u rootfstype bootloadertype tt sd s)))"
| r_boot: "reachable (drv s) \<Longrightarrow> reachable (drv (snd (boot h cfg cmds s)))"
| r_erase_boot: "reachable (drv s) \<Longrightarrow> reachable (drv (snd (erase_boot h cfg s)))"
| r_enter_fastboot: "reachable (drv s) \<Longrightarrow> reachable (drv (snd (enter_fastboot h cfg s)))"
| r_in_fastboot: "reachable (drv s) \<Longrightarrow> reachable (drv (snd (in_fastboot h cfg s)))"
| r_connect: "reachable (drv s) \<Longrightarrow> reachable (drv (snd (connect h cfg s)))"
| r_working_dir: "reachable (drv s) \<Longrightarrow> reachable (drv (snd (working_dir h cfg s)))"
| r_adb_file_system_enter:
    "reachable (drv s) \<Longrightarrow> reachable (drv (snd (adb_file_system_enter h cfg part directory s)))"
| r_adb_file_system_exit:
    "reachable (drv s) \<Longrightarrow> reachable (drv (snd (adb_file_system_exit h cfg host_dir target_dir s)))"

section \<open>Properties\<close>

subsection \<open>Evaluation rules\<close>

lemma str_int_600 [simp]: "str_int 600 = ''600''"
  by (simp add: str_int_def str_nat.simps digit_char_def)

lemma str_int_2 [simp]: "str_int 2 = ''2''"
  by (simp add: str_int_def str_nat.simps digit_char_def)

lemma bnd_ret [simp]: "bnd (ret x) f = f x"
  by (rule ext) (simp add: bnd_def ret_def)

lemma bnd_raise [simp]: "bnd (raise e) f s = (Inl e, s)"
  by (simp add: bnd_def raise_def)

lemma bnd_emit [simp]: "bnd (emit ev) f s = f () (s\<lparr>trace := trace s @ [ev]\<rparr>)"
  by (simp add: bnd_def emit_def)

lemma bnd_assign [simp]: "bnd (assign g) f s = f () (s\<lparr>drv := g (drv s)\<rparr>)"
  by (simp add: bnd_def assign_def)

lemma call_eq:
  "call h cmd ign t s =
     (if ign \<or> exit_status h (trace s) (''timeout -s SIGKILL '' @ str_int t @ ''s '' @ cmd) = 0
      then Inr ()
      else Inl (CalledProcessError
             (exit_status h (trace s) (''timeout -s SIGKILL '' @ str_int t @ ''s '' @ cmd))
             (''timeout -s SIGKILL '' @ str_int t @ ''s '' @ cmd)),
      s\<lparr>trace := trace s @ [RunCommand (''timeout -s SIGKILL '' @ str_int t @ ''s '' @ cmd) ign]\<rparr>)"
  by (simp add: call_def bnd_def ret_def run_command_def Let_def)

lemma FastBoot_call_eq:
  "FastBoot_call h cfg args ign t s =
     (if ign \<or> exit_status h (trace s) (flasher_line cfg t args) = 0
      then Inr ()
      else Inl (CalledProcessError (exit_status h (trace s) (flasher_line cfg t args))
                  (flasher_line cfg t args)),
      s\<lparr>trace := trace s @ [RunCommand (flasher_line cfg t args) ign]\<rparr>)"
  by (simp add: FastBoot_call_def call_eq)

lemma adb_eq:
  "adb h cfg args ign t s =
     (if ign \<or> exit_status h (trace s) (bridge_line cfg t args) = 0
      then Inr ()
      else Inl (CalledProcessError (exit_status h (trace s) (bridge_line cfg t args))
                  (bridge_line cfg t args)),
      s\<lparr>trace := trace s @ [RunCommand (bridge_line cfg t args) ign]\<rparr>)"
  by (simp add: adb_def call_eq)

text \<open>Reading a trace that was extended.\<close>

lemma commands_append [simp]: "commands (xs @ ys) = commands xs @ commands ys"
  by (induction xs rule: commands.induct) simp_all

lemma ramdisk_steps_append [simp]: "ramdisk_steps (xs @ ys) = ramdisk_steps xs @ ramdisk_steps ys"
  by (induction xs rule: ramdisk_steps.induct) simp_all

lemma mkdtemp_result_not_Inl:
  "\<forall>t base. \<not> isl (mkdtemp_result h t base) \<Longrightarrow> mkdtemp_result h t base \<noteq> Inl e"
  by (metis sum.disc(1))

text \<open>The evaluation of the model on the hosts and configurations above.\<close>

lemmas eval_defs = host_ok_def host_failing_def cfg0_def fresh_def init_def kargs0_def
  working_dir_def get_image_def download_image_def extract_ramdisk_def extract_modules_def
  create_ramdisk_def mkdtemp_def check_call_def strip_def is_space_def py_str_def truthy_def
  FastBoot_call_eq adb_eq FastBoot_flash_def FastBoot_erase_def FastBoot_boot_def
  bnd_def ret_def raise_def assign_def emit_def sleep_def Let_def

lemma deploy_kernel_example:
  "shared_working_directory cfg = None \<Longrightarrow>
   deploy_linaro_kernel host_ok cfg kargs0 (fresh fastboot_serial) =
     (Inr (),
      \<lparr>drv = \<lparr>cls = fastboot_serial, target_type = Some ''android'', scratch_dir = Some ''/scratch'',
               p_default_boot_cmds = ''boot_cmds_ramdisk'', p_kernel = Some ''zImage'',
               p_ramdisk = Some ''initrd.gz.dir/ramdisk.cpio'', p_working_dir = None,
               boot_image = Some ''kernel''\<rparr>,
       trace = [DownloadImage ''zImage'' (Some ''/scratch'') True,
                DownloadImage ''initrd.gz'' (Some ''/scratch'') True,
                DownloadImage ''modules.tar'' None False,
                ExtractRamdisk ''initrd.gz'' (Some ''/scratch'') False,
                ExtractModules ''modules.tar'' ''initrd.gz.dir'',
                CreateRamdisk ''initrd.gz.dir'' None]\<rparr>)"
  by (simp add: deploy_linaro_kernel_def BaseDriver_deploy_linaro_kernel_def eval_defs)

subsection \<open>What the methods leave unchanged\<close>

text \<open>
  What the methods leave unchanged. No method changes the class of the driver, and
  only the kernel deployment of the base class changes \<^verbatim>\<open>_kernel\<close>.
\<close>

lemma frameD: "frame f m \<Longrightarrow> f (drv (snd (m s))) = f (drv s)"
  by (simp add: frame_def)

lemma frame_ret: "frame f (ret x)"
  by (simp add: frame_def ret_def)

lemma frame_raise: "frame f (raise e)"
  by (simp add: frame_def raise_def)

lemma frame_emit: "frame f (emit ev)"
  by (simp add: frame_def emit_def)

lemma frame_sleep: "frame f (sleep n)"
  by (simp add: sleep_def frame_emit)

lemma frame_assign: "(\<And>d. f (g d) = f d) \<Longrightarrow> frame f (assign g)"
  by (simp add: frame_def assign_def)

lemma frame_bnd: "frame f m \<Longrightarrow> (\<And>x. frame f (k x)) \<Longrightarrow> frame f (bnd m k)"
  by (auto simp add: frame_def bnd_def split: prod.splits sum.splits) (metis snd_conv)+

lemma frame_bnd_eq:
  "frame f m \<Longrightarrow> (\<And>x. frame f (k x)) \<Longrightarrow> f (drv (snd (bnd m k s))) = f (drv s)"
  using frame_bnd [of f m k] by (simp add: frame_def)

lemma frame_run_command: "frame f (run_command h c b)"
  by (simp add: frame_def run_command_def Let_def)

lemma frame_call: "frame f (call h c b t)"
  by (simp add: call_def frame_bnd frame_run_command frame_ret)

lemma frame_FastBoot_call: "frame f (FastBoot_call h cfg a b t)"
  by (simp add: FastBoot_call_def frame_call)

lemma frame_adb: "frame f (adb h cfg a b t)"
  by (simp add: adb_def frame_call)

lemma frame_services:
  "frame f (check_call h argv)" "frame f (spawn h c t)" "frame f (download_image h u d z)"
  "frame f (extract_ramdisk h r d z)" "frame f (extract_modules h m r)"
  "frame f (create_ramdisk h r d)" "frame f (mkdtemp h b)" "frame f (connect_to_serial h)"
  "frame f (\<lambda>s. download_image h u (g s) z s)" "frame f (\<lambda>s. create_ramdisk h r (g s) s)"
  by (simp_all add: frame_def check_call_def spawn_def download_image_def extract_ramdisk_def
      extract_modules_def create_ramdisk_def mkdtemp_def connect_to_serial_def Let_def)

lemmas frame_basic = frame_ret frame_raise frame_emit frame_sleep frame_run_command frame_call
  frame_FastBoot_call frame_adb frame_services

lemma frame_FastBoot_ops:
  "frame f (FastBoot_erase h cfg p)" "frame f (FastBoot_flash h cfg po i)"
  "frame f (FastBoot_boot h cfg i)"
  by (simp_all add: FastBoot_erase_def FastBoot_flash_def FastBoot_boot_def frame_bnd frame_basic)

lemma frame_FastBoot_enter: "frame f (FastBoot_enter h cfg)"
  unfolding frame_def FastBoot_enter_def
  by (auto simp add: frameD [OF frame_adb] frameD [OF frame_run_command] adb_eq run_command_def
      emit_def bnd_def ret_def Let_def
      split: prod.splits sum.splits error.splits option.splits)

lemma frame_FastBoot_on: "frame f (FastBoot_on h cfg)"
  unfolding frame_def FastBoot_on_def
  by (simp add: FastBoot_call_eq bnd_def emit_def sleep_def ret_def)


lemma frame_working_dir:
  assumes "\<And>d p. f (d\<lparr>p_working_dir := p\<rparr>) = f d"
  shows "frame f (working_dir h cfg)"
  unfolding frame_def working_dir_def
  by (auto simp add: assms mkdtemp_def bnd_def assign_def ret_def
      split: option.splits prod.splits sum.splits)

lemma frame_get_image:
  assumes "\<And>d p. f (d\<lparr>p_working_dir := p\<rparr>) = f d"
  shows "frame f (get_image h cfg url)"
  by (simp add: get_image_def frame_bnd frame_working_dir assms frame_basic)

lemma frame_erase_boot: "frame f (erase_boot h cfg)"
  unfolding frame_def erase_boot_def
  by (simp add: ret_def frameD [OF frame_FastBoot_ops(1)])

lemma frame_BaseDriver_boot: "frame f (BaseDriver_boot h cfg cmds)"
  unfolding frame_def BaseDriver_boot_def
  by (simp add: raise_def frameD [OF frame_FastBoot_call] frameD [OF frame_FastBoot_ops(3)])

lemma frame_flash_reboot:
  "frame f (\<lambda>s. bnd (FastBoot_flash h cfg (Some ''boot'') (boot_image (drv s)))
       (\<lambda>_. FastBoot_call h cfg ''reboot'' False 600) s)"
  unfolding frame_def
  by (simp add: frame_bnd_eq [of f] frame_FastBoot_ops frame_FastBoot_call)

lemma frame_variant_boot:
  "frame f (nexus10_boot h cfg cmds)" "frame f (capri_boot h cfg cmds)"
  "frame f (k3v2_boot h cfg cmds)"
  using frame_flash_reboot [of f h cfg]
  by (simp_all add: frame_def nexus10_boot_def capri_boot_def k3v2_boot_def)

lemma frame_wait_android:
  "frame f (\<lambda>s'. if target_type (drv s') = Some ''android''
                then adb h cfg ''wait-for-device'' False 600 s' else ret () s')"
  unfolding frame_def by (simp add: ret_def frameD [OF frame_adb])

lemma frame_pxa1928dkb_boot: "frame f (pxa1928dkb_boot h cfg cmds)"
  unfolding frame_def pxa1928dkb_boot_def
  by (simp add: frame_bnd_eq [of f] frame_bnd frame_FastBoot_ops frame_FastBoot_call
      frame_wait_android)

lemma frame_boot: "frame f (boot h cfg cmds)"
  unfolding frame_def boot_def
  by (simp add: frameD [OF frame_BaseDriver_boot] frameD [OF frame_variant_boot(1)]
      frameD [OF frame_variant_boot(2)] frameD [OF frame_variant_boot(3)]
      frameD [OF frame_pxa1928dkb_boot] split: board.splits)

lemma frame_in_fastboot: "frame f (in_fastboot h cfg)"
  by (simp add: in_fastboot_def frame_bnd frame_FastBoot_on frame_basic)

lemma frame_enter_fastboot: "frame f (enter_fastboot h cfg)"
  unfolding frame_def enter_fastboot_def
  by (simp add: raise_def frameD [OF frame_FastBoot_enter]
      frame_bnd_eq [of f] frame_FastBoot_enter frame_sleep split: board.splits)

lemma frame_connect: "frame f (connect h cfg)"
proof -
  have a: "frame f (fastboot_connect h cfg)"
    unfolding frame_def fastboot_connect_def adb_spawn_def
    by (simp add: raise_def frame_bnd_eq [of f] frame_adb frame_services)
  have b: "frame f (fastboot_serial_connect h cfg)"
    unfolding fastboot_serial_connect_def
    by (intro frame_bnd frame_wait_android) (simp_all add: frame_basic)
  have c: "frame f (pxa1928dkb_connect h cfg)"
    unfolding pxa1928dkb_connect_def
    by (intro frame_bnd) (simp_all add: frame_basic)
  show ?thesis
    unfolding frame_def connect_def
    by (simp add: raise_def frameD [OF a] frameD [OF b] frameD [OF c] split: board.splits)
qed

lemma frame_adb_file_system_enter:
  assumes "\<And>d p. f (d\<lparr>p_working_dir := p\<rparr>) = f d"
  shows "frame f (adb_file_system_enter h cfg part directory)"
  unfolding adb_file_system_enter_def get_partition_mount_point_def Let_def
  by (intro frame_bnd frame_working_dir assms) (simp_all add: frame_basic split: option.splits)

lemma frame_adb_file_system_exit: "frame f (adb_file_system_exit h cfg host_dir target_dir)"
  by (simp add: adb_file_system_exit_def frame_adb)

lemma frame_deploy_android:
  assumes "\<And>d p. f (d\<lparr>p_working_dir := p\<rparr>) = f d" "\<And>d p. f (d\<lparr>target_type := p\<rparr>) = f d"
    "\<And>d p. f (d\<lparr>scratch_dir := p\<rparr>) = f d" "\<And>d p. f (d\<lparr>boot_image := p\<rparr>) = f d"
  shows "frame f (deploy_android h cfg b sy u rootfstype bootloadertype tt sd)"
  unfolding deploy_android_def
  by (intro frame_bnd frame_assign frame_erase_boot)
     (simp_all add: assms frame_basic frame_get_image frame_bnd frame_FastBoot_ops split: option.splits)

lemma frame_cls_BaseDriver_deploy_linaro_kernel:
  "frame cls (BaseDriver_deploy_linaro_kernel h cfg a)"
  unfolding BaseDriver_deploy_linaro_kernel_def
  apply (intro frame_bnd frame_assign)
  apply (simp_all add: frame_basic frame_get_image frame_bnd frame_assign frame_FastBoot_ops frame_working_dir split: option.splits)
  done


lemma frame_cls_deploy_linaro_kernel: "frame cls (deploy_linaro_kernel h cfg a)"
  unfolding frame_def deploy_linaro_kernel_def
  by (simp add: raise_def frameD [OF frame_cls_BaseDriver_deploy_linaro_kernel] split: board.splits)

lemma deploy_linaro_kernel_unsupported:
  "cls (drv s) \<in> {fastboot, nexus10, capri, pxa1928dkb, k3v2} \<Longrightarrow>
   deploy_linaro_kernel h cfg a s =
     (Inl (CriticalError ''This platform does not support kernel deployment!''), s)"
  by (auto simp add: deploy_linaro_kernel_def raise_def)

lemma reachable_kernel_only_if_supported:
  "reachable d \<Longrightarrow> cls d \<in> {fastboot, nexus10, capri, pxa1928dkb, k3v2} \<Longrightarrow> p_kernel d = None"
proof (induction rule: reachable.induct)
  case (r_init b)
  then show ?case by (simp add: init_def)
next
  case (r_deploy_linaro_kernel s h cfg a)
  from r_deploy_linaro_kernel.prems
  have c: "cls (drv s) \<in> {fastboot, nexus10, capri, pxa1928dkb, k3v2}"
    by (simp add: frameD [OF frame_cls_deploy_linaro_kernel])
  with r_deploy_linaro_kernel.IH show ?case
    by (simp add: deploy_linaro_kernel_unsupported [OF c])
next
  case (r_deploy_android s h cfg b sy u rootfstype bootloadertype tt sd)
  then show ?case
    by (simp add: frameD [OF frame_deploy_android])
next
  case (r_boot s h cfg cmds)
  then show ?case by (simp add: frameD [OF frame_boot])
next
  case (r_erase_boot s h cfg)
  then show ?case by (simp add: frameD [OF frame_erase_boot])
next
  case (r_enter_fastboot s h cfg)
  then show ?case by (simp add: frameD [OF frame_enter_fastboot])
next
  case (r_in_fastboot s h cfg)
  then show ?case by (simp add: frameD [OF frame_in_fastboot])
next
  case (r_connect s h cfg)
  then show ?case by (simp add: frameD [OF frame_connect])
next
  case (r_working_dir s h cfg)
  then show ?case by (simp add: frameD [OF frame_working_dir])
next
  case (r_adb_file_system_enter s h cfg part directory)
  then show ?case by (simp add: frameD [OF frame_adb_file_system_enter])
next
  case (r_adb_file_system_exit s h cfg host_dir target_dir)
  then show ?case by (simp add: frameD [OF frame_adb_file_system_exit])
qed

subsection \<open>The flasher client\<close>

text \<open>
  C8. Every flashing-tool invocation of the flasher client is one \<^verbatim>\<open>run_command\<close> of
  a line that starts with \<^verbatim>\<open>timeout -s SIGKILL <t>s\<close>, then
  \<^verbatim>\<open>flock /var/lock/lava-fastboot.lck\<close>, then the flashing tool and its arguments:
  \<open>t\<close> is what the caller gives, 600 for erase, flash, reboot and boot, and 2 for the
  liveness probe. The lock file is the same in all of them. A partition or an image
  that is \<^verbatim>\<open>None\<close> is written \<^verbatim>\<open>None\<close> in the line.
\<close>

theorem flasher_invocations_wrapped:
  "snd (FastBoot_call h cfg args ign t s) =
     s\<lparr>trace := trace s @
        [RunCommand (''timeout -s SIGKILL '' @ str_int t @ ''s flock /var/lock/lava-fastboot.lck ''
                       @ fastboot_command cfg @ '' '' @ args) ign]\<rparr>
   \<and> snd (FastBoot_erase h cfg part s) =
     s\<lparr>trace := trace s @
        [RunCommand (''timeout -s SIGKILL 600s flock /var/lock/lava-fastboot.lck ''
                       @ fastboot_command cfg @ '' erase '' @ part) False]\<rparr>
   \<and> snd (FastBoot_flash h cfg part' img s) =
     s\<lparr>trace := trace s @
        [RunCommand (''timeout -s SIGKILL 600s flock /var/lock/lava-fastboot.lck ''
                       @ fastboot_command cfg @ '' flash '' @ py_str part' @ '' '' @ py_str img)
           False]\<rparr>
   \<and> snd (FastBoot_on h cfg s) =
     s\<lparr>trace := trace s @
        [LogInfo ''Waiting for 10 seconds for connection to settle'', Sleep 10,
         RunCommand (''timeout -s SIGKILL 2s flock /var/lock/lava-fastboot.lck ''
                       @ fastboot_command cfg @ '' getvar all'') False]\<rparr>
   \<and> snd (FastBoot_boot h cfg img s) =
     s\<lparr>trace := trace s @
        RunCommand (''timeout -s SIGKILL 600s flock /var/lock/lava-fastboot.lck ''
                      @ fastboot_command cfg @ '' reboot'') False #
        (if exit_status h (trace s)
              (''timeout -s SIGKILL 600s flock /var/lock/lava-fastboot.lck ''
                 @ fastboot_command cfg @ '' reboot'') = 0
         then [Sleep 10,
               RunCommand (''timeout -s SIGKILL 600s flock /var/lock/lava-fastboot.lck ''
                             @ fastboot_command cfg @ '' boot '' @ py_str img) False]
         else [])\<rparr>"
  by (simp add: FastBoot_erase_def FastBoot_flash_def FastBoot_on_def FastBoot_boot_def
      FastBoot_call_eq bnd_def sleep_def emit_def ret_def)





subsection \<open>Deploying\<close>

text \<open>
  C6. On a driver of class \<^verbatim>\<open>fastboot\<close>, \<^verbatim>\<open>nexus10\<close>, \<^verbatim>\<open>capri\<close>, \<^verbatim>\<open>pxa1928dkb\<close>
  or \<^verbatim>\<open>k3v2\<close>, \<open>deploy_linaro_kernel\<close> with any arguments, host and configuration
  raises \<^verbatim>\<open>CriticalError\<close> and leaves the state as it was: no event is added to the
  trace and no attribute of the driver changes.
\<close>

theorem kernel_deploy_rejected:
  "cls (drv s) \<in> {fastboot, nexus10, capri, pxa1928dkb, k3v2} \<Longrightarrow>
   deploy_linaro_kernel h cfg a s =
     (Inl (CriticalError ''This platform does not support kernel deployment!''), s)"
  by (auto simp add: deploy_linaro_kernel_def raise_def)

theorem kernel_deploy_rejected_witness:
  "cls (drv (fresh nexus10)) \<in> {fastboot, nexus10, capri, pxa1928dkb, k3v2}
   \<and> deploy_linaro_kernel host_ok cfg0 kargs0 (fresh nexus10) =
       (Inl (CriticalError ''This platform does not support kernel deployment!''), fresh nexus10)"
proof -
  have c: "cls (drv (fresh nexus10)) \<in> {fastboot, nexus10, capri, pxa1928dkb, k3v2}"
    by (simp add: fresh_def init_def)
  from c kernel_deploy_rejected [OF c] show ?thesis by simp
qed

text \<open>
  C2. \<open>deploy_android\<close> with a boot image and a system image and no userdata image,
  when the erase and the flash exit with 0 and the downloads return the paths \<open>p1\<close>
  and \<open>p2\<close>: the call returns, the boot target is the downloaded boot image \<open>p1\<close>,
  and the commands it has issued are the erase of the boot partition (none on
  \<^verbatim>\<open>capri\<close> and \<^verbatim>\<open>pxa1928dkb\<close>) and the flash of the system partition with \<open>p2\<close>, and
  no other: nothing is flashed to the boot partition or to userdata.
\<close>

theorem deploy_android_boot_and_system:
  assumes erase: "\<forall>t. exit_status h t (''timeout -s SIGKILL 600s flock /var/lock/lava-fastboot.lck ''
                     @ fastboot_command cfg @ '' erase boot'') = 0"
    and dl_boot: "\<forall>t dir. download_image_result h t b dir True = Inr p1"
    and dl_sys: "\<forall>t dir. download_image_result h t sy dir True = Inr p2"
    and flash: "\<forall>t. exit_status h t (''timeout -s SIGKILL 600s flock /var/lock/lava-fastboot.lck ''
                     @ fastboot_command cfg @ '' flash system '' @ p2) = 0"
    and mk: "\<forall>t base. \<not> isl (mkdtemp_result h t base)"
  shows "fst (deploy_android h cfg (Some b) (Some sy) None rootfstype bootloadertype tt sd s) = Inr ()
     \<and> boot_image (drv (snd (deploy_android h cfg (Some b) (Some sy) None rootfstype bootloadertype tt sd s)))
         = Some p1
     \<and> commands (trace (snd (deploy_android h cfg (Some b) (Some sy) None rootfstype bootloadertype tt sd s)))
         = commands (trace s)
           @ (if cls (drv s) = capri \<or> cls (drv s) = pxa1928dkb then []
              else [''timeout -s SIGKILL 600s flock /var/lock/lava-fastboot.lck ''
                      @ fastboot_command cfg @ '' erase boot''])
           @ [''timeout -s SIGKILL 600s flock /var/lock/lava-fastboot.lck ''
                @ fastboot_command cfg @ '' flash system '' @ p2]"
  using assms
  by (auto simp add: deploy_android_def erase_boot_def FastBoot_erase_def FastBoot_flash_def
      FastBoot_call_eq get_image_def working_dir_def download_image_def mkdtemp_def
      bnd_def ret_def raise_def assign_def py_str_def mkdtemp_result_not_Inl
      split: option.splits sum.splits)

text \<open>
  On a host whose downloader returns the URL it is given, deploying \<open>img1\<close> and
  \<open>img2\<close> issues the erase and the flash of the system partition; no command flashes
  the boot partition with \<open>img1\<close>.
\<close>

theorem deploy_android_no_boot_flash:
  "deploy_android host_ok cfg0 (Some ''img1'') (Some ''img2'') None None None (Some ''android'')
      (Some ''/scratch'') (fresh fastboot) =
     (Inr (),
      \<lparr>drv = (init fastboot)\<lparr>target_type := Some ''android'', scratch_dir := Some ''/scratch'',
               boot_image := Some ''img1''\<rparr>,
       trace = [RunCommand ''timeout -s SIGKILL 600s flock /var/lock/lava-fastboot.lck fastboot erase boot'' False,
                DownloadImage ''img1'' (Some ''/scratch'') True,
                DownloadImage ''img2'' (Some ''/scratch'') True,
                RunCommand ''timeout -s SIGKILL 600s flock /var/lock/lava-fastboot.lck fastboot flash system img2'' False]\<rparr>)
   \<and> ''timeout -s SIGKILL 600s flock /var/lock/lava-fastboot.lck fastboot flash boot img1''
       \<notin> set (commands (trace (snd (deploy_android host_ok cfg0 (Some ''img1'') (Some ''img2'') None
             None None (Some ''android'') (Some ''/scratch'') (fresh fastboot)))))"
  by (simp add: deploy_android_def erase_boot_def eval_defs)

theorem deploy_android_boot_and_system_witness:
  "fst (deploy_android host_ok cfg0 (Some ''img1'') (Some ''img2'') None None None (Some ''android'')
          (Some ''/scratch'') (fresh fastboot)) = Inr ()
   \<and> boot_image (drv (snd (deploy_android host_ok cfg0 (Some ''img1'') (Some ''img2'') None None None
          (Some ''android'') (Some ''/scratch'') (fresh fastboot)))) = Some ''img1''
   \<and> commands (trace (snd (deploy_android host_ok cfg0 (Some ''img1'') (Some ''img2'') None None None
          (Some ''android'') (Some ''/scratch'') (fresh fastboot)))) =
       [''timeout -s SIGKILL 600s flock /var/lock/lava-fastboot.lck fastboot erase boot'',
        ''timeout -s SIGKILL 600s flock /var/lock/lava-fastboot.lck fastboot flash system img2'']"
proof -
  have 1: "\<forall>t. exit_status host_ok t (''timeout -s SIGKILL 600s flock /var/lock/lava-fastboot.lck ''
                     @ fastboot_command cfg0 @ '' erase boot'') = 0"
    and 2: "\<forall>t dir. download_image_result host_ok t ''img1'' dir True = Inr ''img1''"
    and 3: "\<forall>t dir. download_image_result host_ok t ''img2'' dir True = Inr ''img2''"
    and 4: "\<forall>t. exit_status host_ok t (''timeout -s SIGKILL 600s flock /var/lock/lava-fastboot.lck ''
                     @ fastboot_command cfg0 @ '' flash system '' @ ''img2'') = 0"
    and 5: "\<forall>t base. \<not> isl (mkdtemp_result host_ok t base)"
    by (simp_all add: host_ok_def)
  from deploy_android_boot_and_system [OF 1 2 3 4 5, of None None "Some ''android''"
      "Some ''/scratch''" "fresh fastboot"]
  show ?thesis by (simp add: fresh_def init_def cfg0_def)
qed

text \<open>
  The kernel deployment of the base class with a kernel, a ramdisk and modules, when
  the downloads and the ramdisk tools succeed and, if a root file system is given
  too, its download and flash succeed: by cases on where the working directory is.
\<close>

lemma mkdtemp_result_Inr: "\<forall>t base. \<not> isl (mkdtemp_result h t base) \<Longrightarrow> \<exists>p. mkdtemp_result h t base = Inr p"
  by (metis sum.collapse(2))

lemma BaseDriver_deploy_kernel_ramdisk_modules:
  assumes args: "a_kernel a = Some k" "a_ramdisk a = Some r" "a_modules a = Some m"
    and dl_k: "\<forall>t dir. download_image_result h t k dir True = Inr pk"
    and dl_r: "\<forall>t dir. download_image_result h t r dir True = Inr pr"
    and dl_m: "\<forall>t dir. download_image_result h t m dir False = Inr pm"
    and unpack: "\<forall>t dir. extract_ramdisk_result h t pr dir False = Inr rd"
    and inject: "\<forall>t. extract_modules_result h t pm rd = Inr ()"
    and repack: "\<forall>t dir. create_ramdisk_result h t rd dir = Inr pr'"
    and mk: "\<forall>t base. \<not> isl (mkdtemp_result h t base)"
    and rootfs: "\<forall>u. a_rootfs a = Some u \<longrightarrow>
            (\<exists>pf. \<forall>t dir. download_image_result h t u dir True = Inr pf)
          \<and> (\<forall>t c. exit_status h t c = 0)"
  shows "fst (BaseDriver_deploy_linaro_kernel h cfg a s) = Inr ()
     \<and> (\<exists>wd wd'. ramdisk_steps (trace (snd (BaseDriver_deploy_linaro_kernel h cfg a s))) =
           ramdisk_steps (trace s) @
             [ExtractRamdisk pr wd False, ExtractModules pm rd, CreateRamdisk rd wd'])
     \<and> p_kernel (drv (snd (BaseDriver_deploy_linaro_kernel h cfg a s))) = Some pk
     \<and> p_ramdisk (drv (snd (BaseDriver_deploy_linaro_kernel h cfg a s))) = Some pr'
     \<and> boot_image (drv (snd (BaseDriver_deploy_linaro_kernel h cfg a s))) = Some ''kernel''"
proof -
  note simps = BaseDriver_deploy_linaro_kernel_def FastBoot_flash_def
        FastBoot_call_eq get_image_def working_dir_def download_image_def mkdtemp_def
        extract_ramdisk_def extract_modules_def create_ramdisk_def
        bnd_def ret_def raise_def assign_def
  obtain p where p: "mkdtemp_result h (trace s) (py_str (shared_working_directory cfg)) = Inr p"
    using mkdtemp_result_Inr [OF mk] by blast
  consider (none) "a_rootfs a = None"
    | (some) u pf where "a_rootfs a = Some u" "\<forall>t dir. download_image_result h t u dir True = Inr pf"
        "\<forall>t c. exit_status h t c = 0"
    using rootfs by (cases "a_rootfs a") auto
  then show ?thesis
  proof cases
    case none
    show ?thesis
    proof (cases "shared_working_directory cfg")
      case None
      with none args dl_k dl_r dl_m unpack inject repack show ?thesis
        by (simp add: simps)
    next
      case (Some sh)
      show ?thesis
      proof (cases "strip sh = []")
        case True
        with Some none args dl_k dl_r dl_m unpack inject repack show ?thesis
          by (simp add: simps)
      next
        case False
        show ?thesis
        proof (cases "p_working_dir (drv s)")
          case None
          with False Some none args dl_k dl_r dl_m unpack inject repack p show ?thesis
            by (simp add: simps py_str_def)
        next
          case (Some q)
          with False \<open>shared_working_directory cfg = Some sh\<close> none args dl_k dl_r dl_m unpack inject repack show ?thesis
            by (simp add: simps)
        qed
      qed
    qed
  next
    case some
    show ?thesis
    proof (cases "shared_working_directory cfg")
      case None
      with some args dl_k dl_r dl_m unpack inject repack show ?thesis
        by (simp add: simps)
    next
      case (Some sh)
      show ?thesis
      proof (cases "strip sh = []")
        case True
        with Some some args dl_k dl_r dl_m unpack inject repack show ?thesis
          by (simp add: simps)
      next
        case False
        show ?thesis
        proof (cases "p_working_dir (drv s)")
          case None
          with False Some some args dl_k dl_r dl_m unpack inject repack p show ?thesis
            by (simp add: simps py_str_def)
        next
          case (Some q)
          with False \<open>shared_working_directory cfg = Some sh\<close> some args dl_k dl_r dl_m unpack inject repack show ?thesis
            by (simp add: simps)
        qed
      qed
    qed
  qed
qed

text \<open>
  C7. On the classes that deploy kernels (\<^verbatim>\<open>BaseDriver\<close> and \<^verbatim>\<open>fastboot_serial\<close>), with
  a kernel, a ramdisk and modules given, when the three downloads and the three
  ramdisk tools succeed (and, if a root file system is given too, its download and
  flash): the deployment returns; the ramdisk
  tools were called in the order unpack (on the downloaded ramdisk \<open>pr\<close>), inject (the
  modules into the unpacked directory), repack (that directory); and the boot that
  follows, when a load address is configured, issues one flashing-tool command,
  \<^verbatim>\<open>boot -c "<boot_cmds>" -b <load address> <kernel> <ramdisk>\<close>, whose ramdisk is the
  path the repacking returned.
\<close>

theorem deploy_kernel_ramdisk_modules_then_boot:
  assumes cls: "cls (drv s) = BaseDriver \<or> cls (drv s) = fastboot_serial"
    and args: "a_kernel a = Some k" "a_ramdisk a = Some r" "a_modules a = Some m"
    and dl_k: "\<forall>t dir. download_image_result h t k dir True = Inr pk"
    and dl_r: "\<forall>t dir. download_image_result h t r dir True = Inr pr"
    and dl_m: "\<forall>t dir. download_image_result h t m dir False = Inr pm"
    and unpack: "\<forall>t dir. extract_ramdisk_result h t pr dir False = Inr rd"
    and inject: "\<forall>t. extract_modules_result h t pm rd = Inr ()"
    and repack: "\<forall>t dir. create_ramdisk_result h t rd dir = Inr pr'"
    and mk: "\<forall>t base. \<not> isl (mkdtemp_result h t base)"
    and rootfs: "\<forall>u. a_rootfs a = Some u \<longrightarrow>
            (\<exists>pf. \<forall>t dir. download_image_result h t u dir True = Inr pf)
          \<and> (\<forall>t c. exit_status h t c = 0)"
    and addr: "fastboot_kernel_load_addr cfg = Some addr" "addr \<noteq> []"
  shows "fst (deploy_linaro_kernel h cfg a s) = Inr ()
     \<and> (\<exists>wd wd'. ramdisk_steps (trace (snd (deploy_linaro_kernel h cfg a s))) =
           ramdisk_steps (trace s) @
             [ExtractRamdisk pr wd False, ExtractModules pm rd, CreateRamdisk rd wd'])
     \<and> snd (boot h cfg cmds (snd (deploy_linaro_kernel h cfg a s))) =
         (snd (deploy_linaro_kernel h cfg a s))
           \<lparr>trace := trace (snd (deploy_linaro_kernel h cfg a s)) @
              [RunCommand (''timeout -s SIGKILL 600s flock /var/lock/lava-fastboot.lck ''
                  @ fastboot_command cfg @ '' boot -c '' @ [CHR 0x22] @ py_str cmds @ [CHR 0x22]
                  @ '' -b '' @ addr @ '' '' @ pk @ '' '' @ pr') False]\<rparr>"
proof -
  have d: "deploy_linaro_kernel h cfg a s = BaseDriver_deploy_linaro_kernel h cfg a s"
    using cls by (auto simp add: deploy_linaro_kernel_def)
  have c: "cls (drv (snd (BaseDriver_deploy_linaro_kernel h cfg a s))) = cls (drv s)"
    by (rule frameD [OF frame_cls_BaseDriver_deploy_linaro_kernel])
  have b: "boot h cfg cmds (snd (BaseDriver_deploy_linaro_kernel h cfg a s)) =
           BaseDriver_boot h cfg cmds (snd (BaseDriver_deploy_linaro_kernel h cfg a s))"
    using cls c by (auto simp add: boot_def)
  note after = BaseDriver_deploy_kernel_ramdisk_modules
    [OF args dl_k dl_r dl_m unpack inject repack mk rootfs, of cfg s]
  from after have "snd (BaseDriver_boot h cfg cmds (snd (BaseDriver_deploy_linaro_kernel h cfg a s))) =
         (snd (BaseDriver_deploy_linaro_kernel h cfg a s))
           \<lparr>trace := trace (snd (BaseDriver_deploy_linaro_kernel h cfg a s)) @
              [RunCommand (''timeout -s SIGKILL 600s flock /var/lock/lava-fastboot.lck ''
                  @ fastboot_command cfg @ '' boot -c '' @ [CHR 0x22] @ py_str cmds @ [CHR 0x22]
                  @ '' -b '' @ addr @ '' '' @ pk @ '' '' @ pr') False]\<rparr>"
    using addr by (simp add: BaseDriver_boot_def FastBoot_call_eq truthy_def py_str_def)
  with after show ?thesis
    unfolding d b by blast
qed

theorem deploy_kernel_ramdisk_modules_then_boot_witness:
  "fst (deploy_linaro_kernel host_ok cfg0 kargs0 (fresh fastboot_serial)) = Inr ()
   \<and> ramdisk_steps (trace (snd (deploy_linaro_kernel host_ok cfg0 kargs0 (fresh fastboot_serial)))) =
       [ExtractRamdisk ''initrd.gz'' (Some ''/scratch'') False,
        ExtractModules ''modules.tar'' ''initrd.gz.dir'',
        CreateRamdisk ''initrd.gz.dir'' None]
   \<and> trace (snd (boot host_ok cfg0 (Some ''console=ttyS0'')
               (snd (deploy_linaro_kernel host_ok cfg0 kargs0 (fresh fastboot_serial))))) =
       trace (snd (deploy_linaro_kernel host_ok cfg0 kargs0 (fresh fastboot_serial))) @
         [RunCommand (''timeout -s SIGKILL 600s flock /var/lock/lava-fastboot.lck fastboot boot -c ''
            @ [CHR 0x22] @ ''console=ttyS0'' @ [CHR 0x22]
            @ '' -b 0x80008000 zImage initrd.gz.dir/ramdisk.cpio'') False]"
proof -
  have c: "cls (drv (fresh fastboot_serial)) = BaseDriver \<or> cls (drv (fresh fastboot_serial)) = fastboot_serial"
    by (simp add: fresh_def init_def)
  have a: "a_kernel kargs0 = Some ''zImage''" "a_ramdisk kargs0 = Some ''initrd.gz''"
    "a_modules kargs0 = Some ''modules.tar''"
    by (simp_all add: kargs0_def)
  have d: "\<forall>t dir. download_image_result host_ok t ''zImage'' dir True = Inr ''zImage''"
    "\<forall>t dir. download_image_result host_ok t ''initrd.gz'' dir True = Inr ''initrd.gz''"
    "\<forall>t dir. download_image_result host_ok t ''modules.tar'' dir False = Inr ''modules.tar''"
    "\<forall>t dir. extract_ramdisk_result host_ok t ''initrd.gz'' dir False = Inr ''initrd.gz.dir''"
    "\<forall>t. extract_modules_result host_ok t ''modules.tar'' ''initrd.gz.dir'' = Inr ()"
    "\<forall>t dir. create_ramdisk_result host_ok t ''initrd.gz.dir'' dir = Inr ''initrd.gz.dir/ramdisk.cpio''"
    "\<forall>t base. \<not> isl (mkdtemp_result host_ok t base)"
    by (simp_all add: host_ok_def)
  have r: "\<forall>u. a_rootfs kargs0 = Some u \<longrightarrow>
            (\<exists>pf. \<forall>t dir. download_image_result host_ok t u dir True = Inr pf)
          \<and> (\<forall>t c. exit_status host_ok t c = 0)"
    by (simp add: kargs0_def)
  have l: "fastboot_kernel_load_addr cfg0 = Some ''0x80008000''" "''0x80008000'' \<noteq> []"
    by (simp_all add: cfg0_def)
  have sh: "shared_working_directory cfg0 = None" by (simp add: cfg0_def)
  from deploy_kernel_ramdisk_modules_then_boot [OF c a d r l, of "Some ''console=ttyS0''"]
  have "fst (deploy_linaro_kernel host_ok cfg0 kargs0 (fresh fastboot_serial)) = Inr ()"
    and "snd (boot host_ok cfg0 (Some ''console=ttyS0'')
               (snd (deploy_linaro_kernel host_ok cfg0 kargs0 (fresh fastboot_serial)))) =
         (snd (deploy_linaro_kernel host_ok cfg0 kargs0 (fresh fastboot_serial)))
           \<lparr>trace := trace (snd (deploy_linaro_kernel host_ok cfg0 kargs0 (fresh fastboot_serial))) @
              [RunCommand (''timeout -s SIGKILL 600s flock /var/lock/lava-fastboot.lck ''
                  @ fastboot_command cfg0 @ '' boot -c '' @ [CHR 0x22] @ py_str (Some ''console=ttyS0'')
                  @ [CHR 0x22] @ '' -b '' @ ''0x80008000'' @ '' '' @ ''zImage'' @ '' ''
                  @ ''initrd.gz.dir/ramdisk.cpio'') False]\<rparr>"
    by blast+
  moreover have "fastboot_command cfg0 = ''fastboot''" by (simp add: cfg0_def)
  ultimately show ?thesis
    by (simp add: deploy_kernel_example [OF sh] py_str_def)
qed

text \<open>
  C10. \<open>deploy_android\<close> without a boot image always raises, after the two assignments
  and after \<open>erase_boot\<close>. On \<^verbatim>\<open>capri\<close> and \<^verbatim>\<open>pxa1928dkb\<close>, whose \<open>erase_boot\<close> does
  nothing, the trace is unchanged. On every other class the erase command of the boot
  partition has been issued when the error surfaces: the error is the
  \<^verbatim>\<open>CriticalError\<close> when the erase exits with 0, and the failure of the erase itself
  otherwise.
\<close>

theorem deploy_android_without_boot_image:
  "deploy_android h cfg None system userdata rootfstype bootloadertype tt sd s =
     (if cls (drv s) = capri \<or> cls (drv s) = pxa1928dkb
      then (Inl (CriticalError ''A boot image is required!''),
            s\<lparr>drv := (drv s)\<lparr>target_type := tt, scratch_dir := sd\<rparr>\<rparr>)
      else (Inl (if exit_status h (trace s)
                      (''timeout -s SIGKILL 600s flock /var/lock/lava-fastboot.lck ''
                         @ fastboot_command cfg @ '' erase boot'') = 0
                 then CriticalError ''A boot image is required!''
                 else CalledProcessError
                        (exit_status h (trace s)
                           (''timeout -s SIGKILL 600s flock /var/lock/lava-fastboot.lck ''
                              @ fastboot_command cfg @ '' erase boot''))
                        (''timeout -s SIGKILL 600s flock /var/lock/lava-fastboot.lck ''
                           @ fastboot_command cfg @ '' erase boot'')),
            s\<lparr>drv := (drv s)\<lparr>target_type := tt, scratch_dir := sd\<rparr>,
              trace := trace s @
                [RunCommand (''timeout -s SIGKILL 600s flock /var/lock/lava-fastboot.lck ''
                               @ fastboot_command cfg @ '' erase boot'') False]\<rparr>))"
  by (simp add: deploy_android_def erase_boot_def FastBoot_erase_def FastBoot_call_eq bnd_def
      ret_def raise_def assign_def)

subsection \<open>Scoped file access\<close>

text \<open>
  Before the \<^verbatim>\<open>yield\<close> the last call is the pull of the
  remote directory into the staging directory.
\<close>

lemma adb_file_system_enter_last:
  assumes "adb_file_system_enter h cfg part directory s = (Inr (host_dir, target_dir), s1)"
  shows "last (trace s1) =
     RunCommand (''timeout -s SIGKILL 600s '' @ adb_command cfg @ '' pull '' @ target_dir @ '' '' @ host_dir) True"
  using assms
  by (auto simp add: adb_file_system_enter_def get_partition_mount_point_def working_dir_def
      mkdtemp_def check_call_def adb_eq bnd_def ret_def raise_def assign_def Let_def
      split: option.splits sum.splits prod.splits if_splits)

text \<open>
  C1. Once \<open>adb_file_system\<close> has pulled the remote directory \<open>target_dir\<close> into the
  staging directory \<open>host_dir\<close> and yielded it: when the caller's body returns, the
  next and last call is the push of \<open>host_dir\<close> to the same \<open>target_dir\<close>; when the
  body raises, nothing is pushed and the body's exception is the result of the scope.
\<close>

theorem adb_file_system_pushes_back_unless_body_raises:
  assumes "adb_file_system_enter h cfg part directory s = (Inr (host_dir, target_dir), s1)"
  shows "last (trace s1) =
           RunCommand (''timeout -s SIGKILL 600s '' @ adb_command cfg @ '' pull '' @ target_dir
                         @ '' '' @ host_dir) True
       \<and> (\<forall>r s2. body host_dir s1 = (Inr r, s2) \<longrightarrow>
            snd (adb_file_system h cfg part directory body s) =
              s2\<lparr>trace := trace s2 @
                 [RunCommand (''timeout -s SIGKILL 600s '' @ adb_command cfg @ '' push '' @ host_dir
                                @ '' '' @ target_dir) False]\<rparr>)
       \<and> (\<forall>e s2. body host_dir s1 = (Inl e, s2) \<longrightarrow>
            adb_file_system h cfg part directory body s = (Inl e, s2))"
  using assms adb_file_system_enter_last [OF assms]
  by (simp add: adb_file_system_def adb_file_system_exit_def adb_eq bnd_def ret_def)

text \<open>A body that raises: the trace ends with the pull, and holds no push.\<close>

theorem adb_file_system_body_raises:
  "adb_file_system host_ok cfg0 ''userdata'' ''app''
      body_raises (ready fastboot) =
     (Inl (OtherException ''IOError'' ''disk full''),
      \<lparr>drv = drv (ready fastboot), trace =
         [CheckCall [''mkdir'', ''-p'', ''/scratch/mnt/app''],
          RunCommand ''timeout -s SIGKILL 600s adb pull /data/app /scratch/mnt/app'' True]\<rparr>)
   \<and> RunCommand ''timeout -s SIGKILL 600s adb push /scratch/mnt/app /data/app'' False
       \<notin> set (trace (snd (adb_file_system host_ok cfg0 ''userdata'' ''app''
             body_raises (ready fastboot))))"
  by (simp add: adb_file_system_def adb_file_system_enter_def adb_file_system_exit_def
      get_partition_mount_point_def ready_def body_raises_def eval_defs)

text \<open>A body that writes a file and returns, and the body that raises.\<close>

theorem adb_file_system_pushes_back_witness:
  "adb_file_system_enter host_ok cfg0 ''userdata'' ''app'' (ready fastboot) =
     (Inr (''/scratch/mnt/app'', ''/data/app''),
      \<lparr>drv = drv (ready fastboot), trace =
         [CheckCall [''mkdir'', ''-p'', ''/scratch/mnt/app''],
          RunCommand ''timeout -s SIGKILL 600s adb pull /data/app /scratch/mnt/app'' True]\<rparr>)
   \<and> snd (adb_file_system host_ok cfg0 ''userdata'' ''app'' body_writes
        (ready fastboot)) =
     \<lparr>drv = drv (ready fastboot), trace =
         [CheckCall [''mkdir'', ''-p'', ''/scratch/mnt/app''],
          RunCommand ''timeout -s SIGKILL 600s adb pull /data/app /scratch/mnt/app'' True,
          CheckCall [''touch'', ''/scratch/mnt/app/f''],
          RunCommand ''timeout -s SIGKILL 600s adb push /scratch/mnt/app /data/app'' False]\<rparr>
   \<and> adb_file_system host_ok cfg0 ''userdata'' ''app''
        body_raises (ready fastboot) =
     (Inl (OtherException ''IOError'' ''disk full''),
      \<lparr>drv = drv (ready fastboot), trace =
         [CheckCall [''mkdir'', ''-p'', ''/scratch/mnt/app''],
          RunCommand ''timeout -s SIGKILL 600s adb pull /data/app /scratch/mnt/app'' True]\<rparr>)"
proof -
  let ?s1 = "\<lparr>drv = drv (ready fastboot), trace =
         [CheckCall [''mkdir'', ''-p'', ''/scratch/mnt/app''],
          RunCommand ''timeout -s SIGKILL 600s adb pull /data/app /scratch/mnt/app'' True]\<rparr>"
  have e: "adb_file_system_enter host_ok cfg0 ''userdata'' ''app'' (ready fastboot) =
     (Inr (''/scratch/mnt/app'', ''/data/app''), ?s1)"
    by (simp add: adb_file_system_enter_def get_partition_mount_point_def ready_def eval_defs)
  note t1 = adb_file_system_pushes_back_unless_body_raises
    [OF e, of body_writes]
  note t2 = adb_file_system_pushes_back_unless_body_raises
    [OF e, of body_raises]
  from t1 have 1: "snd (adb_file_system host_ok cfg0 ''userdata'' ''app''
        body_writes (ready fastboot)) =
     \<lparr>drv = drv (ready fastboot), trace =
         [CheckCall [''mkdir'', ''-p'', ''/scratch/mnt/app''],
          RunCommand ''timeout -s SIGKILL 600s adb pull /data/app /scratch/mnt/app'' True,
          CheckCall [''touch'', ''/scratch/mnt/app/f''],
          RunCommand ''timeout -s SIGKILL 600s adb push /scratch/mnt/app /data/app'' False]\<rparr>"
    by (simp add: body_writes_def emit_def cfg0_def)
  from t2 have 2: "adb_file_system host_ok cfg0 ''userdata'' ''app''
        body_raises (ready fastboot) =
     (Inl (OtherException ''IOError'' ''disk full''), ?s1)"
    by (simp add: body_raises_def raise_def)
  from e 1 2 show ?thesis by simp
qed

subsection \<open>Booting\<close>

text \<open>
  C5. In every state a driver can reach, of whatever class, with \<^verbatim>\<open>_kernel\<close> set and
  no kernel load address configured (\<^verbatim>\<open>None\<close> or empty), \<open>boot\<close> raises
  \<^verbatim>\<open>CriticalError\<close> and leaves the state as it was, so it invokes nothing:
  the error names the load address, or the missing deployment when the deployment
  that set the kernel did not finish. The classes that override \<open>boot\<close> never hold a
  kernel, since they reject its deployment.
\<close>

theorem kernel_boot_without_load_address:
  assumes "reachable (drv s)" and "p_kernel (drv s) \<noteq> None"
    and "\<not> truthy (fastboot_kernel_load_addr cfg)"
  shows "boot h cfg cmds s =
     (Inl (CriticalError (if boot_image (drv s) = None then ''Deploy action must be run first''
                          else ''Kernel load address not defined!'')), s)"
proof -
  from assms(1,2) have "cls (drv s) = BaseDriver \<or> cls (drv s) = fastboot_serial"
    using reachable_kernel_only_if_supported [of "drv s"] by (cases "cls (drv s)") auto
  with assms(2,3) show ?thesis
    by (auto simp add: boot_def BaseDriver_boot_def raise_def)
qed

theorem kernel_boot_without_load_address_witness:
  "reachable (drv (snd (deploy_linaro_kernel host_ok (cfg0\<lparr>fastboot_kernel_load_addr := None\<rparr>)
                          kargs0 (fresh fastboot_serial))))
   \<and> p_kernel (drv (snd (deploy_linaro_kernel host_ok (cfg0\<lparr>fastboot_kernel_load_addr := None\<rparr>)
                          kargs0 (fresh fastboot_serial)))) = Some ''zImage''
   \<and> \<not> truthy (fastboot_kernel_load_addr (cfg0\<lparr>fastboot_kernel_load_addr := None\<rparr>))
   \<and> fst (boot host_ok (cfg0\<lparr>fastboot_kernel_load_addr := None\<rparr>) None
        (snd (deploy_linaro_kernel host_ok (cfg0\<lparr>fastboot_kernel_load_addr := None\<rparr>)
                kargs0 (fresh fastboot_serial)))) =
       Inl (CriticalError ''Kernel load address not defined!'')
   \<and> trace (snd (boot host_ok (cfg0\<lparr>fastboot_kernel_load_addr := None\<rparr>) None
        (snd (deploy_linaro_kernel host_ok (cfg0\<lparr>fastboot_kernel_load_addr := None\<rparr>)
                kargs0 (fresh fastboot_serial))))) =
       trace (snd (deploy_linaro_kernel host_ok (cfg0\<lparr>fastboot_kernel_load_addr := None\<rparr>)
                kargs0 (fresh fastboot_serial)))"
proof -
  let ?cfg = "cfg0\<lparr>fastboot_kernel_load_addr := None\<rparr>"
  let ?s = "snd (deploy_linaro_kernel host_ok ?cfg kargs0 (fresh fastboot_serial))"
  have r: "reachable (drv ?s)"
    by (rule reachable.r_deploy_linaro_kernel) (simp add: fresh_def reachable.r_init)
  have sh: "shared_working_directory ?cfg = None" by (simp add: cfg0_def)
  have k: "p_kernel (drv ?s) \<noteq> None" by (simp add: deploy_kernel_example [OF sh])
  have a: "\<not> truthy (fastboot_kernel_load_addr ?cfg)" by (simp add: truthy_def)
  from kernel_boot_without_load_address [OF r k a, of host_ok None] r a
  show ?thesis by (simp add: deploy_kernel_example [OF sh])
qed

text \<open>
  On \<^verbatim>\<open>BaseDriver\<close>, \<^verbatim>\<open>fastboot\<close> and \<^verbatim>\<open>fastboot_serial\<close>, which run \<^verbatim>\<open>BaseDriver.boot\<close>,
  booting before any deployment raises at once. On the four classes that override
  \<open>boot\<close> the first thing it does is to run the flashing tool on the image \<^verbatim>\<open>None\<close>.
\<close>

lemma boot_before_deploy_base_classes:
  "cls (drv s) \<in> {BaseDriver, fastboot, fastboot_serial} \<Longrightarrow> boot_image (drv s) = None \<Longrightarrow>
   boot h cfg cmds s = (Inl (CriticalError ''Deploy action must be run first''), s)"
  by (auto simp add: boot_def BaseDriver_boot_def raise_def)

lemma boot_before_deploy_overriding_classes:
  "cls (drv s) \<in> {nexus10, capri, pxa1928dkb, k3v2} \<Longrightarrow> boot_image (drv s) = None \<Longrightarrow>
   take (Suc (length (trace s))) (trace (snd (boot h cfg cmds s))) =
     trace s @ [RunCommand (''timeout -s SIGKILL 600s flock /var/lock/lava-fastboot.lck ''
                              @ fastboot_command cfg @ '' flash boot None'') False]"
  by (auto simp add: boot_def nexus10_boot_def capri_boot_def k3v2_boot_def pxa1928dkb_boot_def
      FastBoot_flash_def FastBoot_call_eq adb_eq bnd_def py_str_def ret_def)

text \<open>
  C3. Booting before a deployment does not raise at once on every class: a
  \<^verbatim>\<open>nexus10\<close> driver that was just constructed runs \<^verbatim>\<open>fastboot flash boot None\<close>. Where
  the tool exits with 0 it then reboots the board and \<open>boot\<close> returns; where the tool
  fails, \<open>boot\<close> raises \<^verbatim>\<open>CalledProcessError\<close>, not the \<^verbatim>\<open>CriticalError\<close> of the
  base class.
\<close>

theorem boot_before_deploy_nexus10:
  "boot host_ok cfg0 None (fresh nexus10) =
     (Inr (), \<lparr>drv = init nexus10, trace =
        [RunCommand ''timeout -s SIGKILL 600s flock /var/lock/lava-fastboot.lck fastboot flash boot None'' False,
         RunCommand ''timeout -s SIGKILL 600s flock /var/lock/lava-fastboot.lck fastboot reboot'' False]\<rparr>)
   \<and> boot host_failing cfg0 None (fresh nexus10) =
     (Inl (CalledProcessError 1
            ''timeout -s SIGKILL 600s flock /var/lock/lava-fastboot.lck fastboot flash boot None''),
      \<lparr>drv = init nexus10, trace =
        [RunCommand ''timeout -s SIGKILL 600s flock /var/lock/lava-fastboot.lck fastboot flash boot None'' False]\<rparr>)"
  by (simp add: boot_def nexus10_boot_def eval_defs)

subsection \<open>The android boot action\<close>

text \<open>
  C9. When the client's boot raises an \<^verbatim>\<open>Exception\<close> \<open>e\<close>, \<open>run\<close> logs it and raises:
  an \<^verbatim>\<open>ADBConnectError\<close> is raised again as it is, and any other \<^verbatim>\<open>Exception\<close> is
  replaced by the one \<^verbatim>\<open>CriticalError\<close> \<open>Failed to boot test image.\<close>
\<close>

theorem android_boot_failure_kinds:
  assumes "client_boot (configure_client options cmds wfhs wfhsa tip jar ucmds c) adb_check = (Inl e, c')"
    and "is_Exception e"
  shows "cmd_boot_linaro_android_image_run client_boot options cmds adb_check wfhs wfhsa tip jar ucmds c =
     (case e of
        ADBConnectError m \<Rightarrow>
          (Inl e, c'\<lparr>log := log c' @
             [LogException ''boot_linaro_android_image failed to create the adb connection: %s'' e]\<rparr>)
      | _ \<Rightarrow>
          (Inl (CriticalError ''Failed to boot test image.''),
           c'\<lparr>log := log c' @ [LogException ''boot_linaro_android_image failed: %s'' e]\<rparr>))"
  using assms by (auto simp add: cmd_boot_linaro_android_image_run_def split: error.splits)

text \<open>What is not an \<^verbatim>\<open>Exception\<close> is neither caught nor logged.\<close>

lemma android_boot_interrupt_passes:
  assumes "client_boot (configure_client options cmds wfhs wfhsa tip jar ucmds c) adb_check = (Inl e, c')"
    and "\<not> is_Exception e"
  shows "cmd_boot_linaro_android_image_run client_boot options cmds adb_check wfhs wfhsa tip jar ucmds c =
     (Inl e, c')"
  using assms by (auto simp add: cmd_boot_linaro_android_image_run_def split: error.splits)

theorem android_boot_failure_kinds_witness:
  "cmd_boot_linaro_android_image_run boot_no_bridge [] None False True None None None None client0 =
     (Inl (ADBConnectError ''Failed to create adb connection''),
      client0\<lparr>log := [LogException ''boot_linaro_android_image failed to create the adb connection: %s''
                         (ADBConnectError ''Failed to create adb connection'')]\<rparr>)
   \<and> cmd_boot_linaro_android_image_run boot_timeout [] None False True None None None None client0 =
     (Inl (CriticalError ''Failed to boot test image.''),
      client0\<lparr>log := [LogException ''boot_linaro_android_image failed: %s''
                         (OtherException ''TimeoutError'' ''no prompt'')]\<rparr>)"
proof -
  have 1: "boot_no_bridge (configure_client [] None True None None None None client0) False =
      (Inl (ADBConnectError ''Failed to create adb connection''), client0)"
    by (simp add: boot_no_bridge_def configure_client_def client0_def)
  have 2: "boot_timeout (configure_client [] None True None None None None client0) False =
      (Inl (OtherException ''TimeoutError'' ''no prompt''), client0)"
    by (simp add: boot_timeout_def configure_client_def client0_def)
  have 3: "log client0 = []" by (simp add: client0_def)
  from android_boot_failure_kinds [where client_boot = boot_no_bridge, OF 1]
    android_boot_failure_kinds [where client_boot = boot_timeout, OF 2]
  show ?thesis by (simp add: 3)
qed

end
